theory Spec2Isabelle
  imports Main "HOL-Library.Word"
begin

section \<open>JavaScript values and objects\<close>

text \<open>
  The values that the fields of a payload or of a return query hold. Strings are kept
  as their UTF-8 bytes. \<open>JNum n\<close> is the number with the integer value \<open>n\<close>; arithmetic
  on it is exact, which is what IEEE-754 doubles do as long as the result is a safe
  integer (below \<open>2 ^ 53\<close> in absolute value), and the theorems that depend on a numeric
  result carry that bound. \<open>JNaN\<close> is what arithmetic on a non-number yields.
\<close>

datatype jsval = JUndefined | JNull | JBool bool | JNum int | JNaN | JStr string

type_synonym jsobj = "(string \<times> jsval) list"

datatype error = Error string | TypeError | ValidationErrors "string list"

text \<open>ToBoolean: \<open>!value\<close> is \<open>\<not> truthy value\<close>.\<close>

fun truthy :: "jsval \<Rightarrow> bool" where
  "truthy JUndefined = False"
| "truthy JNull = False"
| "truthy (JBool b) = b"
| "truthy (JNum n) = (n \<noteq> 0)"
| "truthy JNaN = False"
| "truthy (JStr s) = (s \<noteq> [])"

fun decimal :: "nat \<Rightarrow> string" where
  "decimal n =
     (if n < 10 then [''0123456789'' ! n]
      else decimal (n div 10) @ [''0123456789'' ! (n mod 10)])"

declare decimal.simps [simp del]

text \<open>Number.prototype.toString on an integer value (below \<open>10 ^ 21\<close> in absolute value).\<close>

definition Number_toString :: "int \<Rightarrow> string" where
  "Number_toString n = (if n < 0 then CHR ''-'' # decimal (nat (- n)) else decimal (nat n))"

text \<open>\<open>value.toString()\<close>: a method call, so it throws a TypeError on undefined and null.\<close>

fun toString :: "jsval \<Rightarrow> error + string" where
  "toString JUndefined = Inl TypeError"
| "toString JNull = Inl TypeError"
| "toString (JBool b) = Inr (if b then ''true'' else ''false'')"
| "toString (JNum n) = Inr (Number_toString n)"
| "toString JNaN = Inr ''NaN''"
| "toString (JStr s) = Inr s"

text \<open>
  An object is the list of its own properties in insertion order; a property that is not
  there reads as undefined, an assignment replaces the value in place or appends the key.
\<close>

definition obj_get :: "jsobj \<Rightarrow> string \<Rightarrow> jsval" where
  "obj_get obj k = (case map_of obj k of None \<Rightarrow> JUndefined | Some v \<Rightarrow> v)"

definition obj_set :: "jsobj \<Rightarrow> string \<Rightarrow> jsval \<Rightarrow> jsobj" where
  "obj_set obj k v =
     (if k \<in> fst ` set obj then map (\<lambda>e. if fst e = k then (k, v) else e) obj
      else obj @ [(k, v)])"

definition obj_delete :: "jsobj \<Rightarrow> string \<Rightarrow> jsobj" where
  "obj_delete obj k = filter (\<lambda>e. fst e \<noteq> k) obj"

text \<open>\<open>Object.assign(target, source)\<close>, and the object literal \<open>{ ...a, ...b }\<close>.\<close>

definition obj_assign :: "jsobj \<Rightarrow> jsobj \<Rightarrow> jsobj" where
  "obj_assign target source = fold (\<lambda>e acc. obj_set acc (fst e) (snd e)) source target"

definition spread :: "jsobj \<Rightarrow> jsobj \<Rightarrow> jsobj" where
  "spread a b = obj_assign (obj_assign [] a) b"

section \<open>The URL class\<close>

text \<open>
  A URL object: what stands before the query, the query as it is serialised now (if
  any), the list behind \<open>searchParams\<close>, and the fragment.
\<close>

record URL =
  url_head :: string
  url_query :: "string option"
  searchParams :: "(string \<times> string) list"
  url_fragment :: "string option"

text \<open>The application/x-www-form-urlencoded serialiser, byte by byte.\<close>

definition urlencode_byte :: "char \<Rightarrow> string" where
  "urlencode_byte c =
     (if c \<in> set ''abcdefghijklmnopqrstuvwxyzABCDEFGHIJKLMNOPQRSTUVWXYZ0123456789*-._'' then [c]
      else if c = CHR '' '' then ''+''
      else [CHR ''%'', ''0123456789ABCDEF'' ! (of_char c div 16),
            ''0123456789ABCDEF'' ! (of_char c mod 16)])"

definition urlencode :: "string \<Rightarrow> string" where
  "urlencode s = concat (map urlencode_byte s)"

fun urlencoded :: "(string \<times> string) list \<Rightarrow> string" where
  "urlencoded [] = []"
| "urlencoded [(k, v)] = urlencode k @ ''='' @ urlencode v"
| "urlencoded ((k, v) # p # ps) = urlencode k @ ''='' @ urlencode v @ ''&'' @ urlencoded (p # ps)"

text \<open>\<open>url.searchParams.append(key, value)\<close>: the list grows and the query is serialised anew.\<close>

definition searchParams_append :: "URL \<Rightarrow> string \<Rightarrow> string \<Rightarrow> URL" where
  "searchParams_append u k v =
     (let ps = searchParams u @ [(k, v)]; s = urlencoded ps
      in u\<lparr>searchParams := ps, url_query := (if s = [] then None else Some s)\<rparr>)"

text \<open>The \<open>search\<close> getter and \<open>toString()\<close> (the href).\<close>

definition URL_search :: "URL \<Rightarrow> string" where
  "URL_search u =
     (case url_query u of None \<Rightarrow> [] | Some q \<Rightarrow> if q = [] then [] else CHR ''?'' # q)"

definition URL_toString :: "URL \<Rightarrow> string" where
  "URL_toString u =
     url_head u
     @ (case url_query u of None \<Rightarrow> [] | Some q \<Rightarrow> CHR ''?'' # q)
     @ (case url_fragment u of None \<Rightarrow> [] | Some f \<Rightarrow> CHR ''#'' # f)"

section \<open>What the program takes from its platform\<close>

text \<open>
  The library and language functions the class calls and whose code is not part of it:
  \<open>String.prototype.localeCompare\<close>, \<open>crypto.createHmac(alg, key).update(data).digest()\<close>
  (the digest bytes), the URL parser behind \<open>new URL(s)\<close> (\<open>None\<close> when it throws),
  \<open>validate\<close> of class-validator on the DTO built from the merged fields (the names of
  the violated properties), the value \<open>dateFormat\<close> returns for the clock at the time of
  the call, and the conversion of a string to a number.
\<close>

record platform =
  localeCompare :: "string \<Rightarrow> string \<Rightarrow> int"
  createHmac :: "string \<Rightarrow> string \<Rightarrow> string \<Rightarrow> 8 word list"
  URL_parse :: "string \<Rightarrow> URL option"
  validate :: "jsobj \<Rightarrow> string list"
  dateFormat_now :: jsval
  StringToNumber :: "string \<Rightarrow> jsval"

text \<open>ToNumber, and the product \<open>a * b\<close>.\<close>

fun ToNumber :: "platform \<Rightarrow> jsval \<Rightarrow> jsval" where
  "ToNumber pf JUndefined = JNaN"
| "ToNumber pf JNull = JNum 0"
| "ToNumber pf (JBool b) = JNum (if b then 1 else 0)"
| "ToNumber pf (JNum n) = JNum n"
| "ToNumber pf JNaN = JNaN"
| "ToNumber pf (JStr s) = StringToNumber pf s"

definition js_times :: "platform \<Rightarrow> jsval \<Rightarrow> jsval \<Rightarrow> jsval" where
  "js_times pf a b =
     (case (ToNumber pf a, ToNumber pf b) of
        (JNum x, JNum y) \<Rightarrow> JNum (x * y)
      | _ \<Rightarrow> JNaN)"

text \<open>
  \<open>Object.entries(obj).sort(([key1], [key2]) => key1.toString().localeCompare(key2.toString()))\<close>:
  the stable sort by the comparator, written as insertion from the right. Every sort
  that is stable returns this list when the comparator is consistent. The entries are
  taken in insertion order; JavaScript lists keys that are array indices first, which the
  sort makes immaterial for keys that the comparator tells apart.
\<close>

fun insort_entry :: "platform \<Rightarrow> string \<times> jsval \<Rightarrow> jsobj \<Rightarrow> jsobj" where
  "insort_entry pf e [] = [e]"
| "insort_entry pf e (y # ys) =
     (if localeCompare pf (fst e) (fst y) \<le> 0 then e # y # ys else y # insort_entry pf e ys)"

definition sort_entries :: "platform \<Rightarrow> jsobj \<Rightarrow> jsobj" where
  "sort_entries pf obj = foldr (insort_entry pf) obj []"

text \<open>\<open>.digest('hex')\<close>: two lowercase hexadecimal digits for each byte.\<close>

definition hex_byte :: "8 word \<Rightarrow> string" where
  "hex_byte b = [''0123456789abcdef'' ! (unat b div 16), ''0123456789abcdef'' ! (unat b mod 16)]"

definition digest_hex :: "8 word list \<Rightarrow> string" where
  "digest_hex bs = concat (map hex_byte bs)"

section \<open>Promises\<close>

text \<open>A promise settles once: \<open>resolve\<close> and \<open>reject\<close> on a settled promise do nothing.\<close>

datatype 'a promise = Pending | Resolved 'a | Rejected error

fun resolve :: "'a promise \<Rightarrow> 'a \<Rightarrow> 'a promise" where
  "resolve Pending v = Resolved v"
| "resolve p v = p"

fun reject :: "'a promise \<Rightarrow> error \<Rightarrow> 'a promise" where
  "reject Pending e = Rejected e"
| "reject p e = p"

section \<open>The response code catalog\<close>

datatype VnpLocale = VN | EN

record localized =
  vn :: string
  en :: string

fun select_locale :: "localized \<Rightarrow> VnpLocale \<Rightarrow> string" where
  "select_locale r VN = vn r"
| "select_locale r EN = en r"

definition responseMap :: "(string \<times> localized) list" where
  "responseMap =
     [
       (''00'',
         \<lparr>vn = ''Giao d'' @ [CHR 0xE1, CHR 0xBB, CHR 0x8B] @ ''ch th'' @ [CHR 0xC3, CHR 0xA0] @ ''nh c'' @ [CHR 0xC3, CHR 0xB4] @ ''ng'',
          en = ''Approved''\<rparr>),
       (''01'',
         \<lparr>vn = ''Giao d'' @ [CHR 0xE1, CHR 0xBB, CHR 0x8B] @ ''ch '' @ [CHR 0xC4, CHR 0x91, CHR 0xC3, CHR 0xA3] @ '' t'' @ [CHR 0xE1, CHR 0xBB, CHR 0x93] @ ''n t'' @ [CHR 0xE1, CHR 0xBA, CHR 0xA1] @ ''i'',
          en = ''Transaction is already exist''\<rparr>),
       (''02'',
         \<lparr>vn = ''Merchant kh'' @ [CHR 0xC3, CHR 0xB4] @ ''ng h'' @ [CHR 0xE1, CHR 0xBB, CHR 0xA3] @ ''p l'' @ [CHR 0xE1, CHR 0xBB, CHR 0x87] @ '' (ki'' @ [CHR 0xE1, CHR 0xBB, CHR 0x83] @ ''m tra l'' @ [CHR 0xE1, CHR 0xBA, CHR 0xA1] @ ''i vnp_TmnCode)'',
          en = ''Invalid merchant (check vnp_TmnCode value)''\<rparr>),
       (''03'',
         \<lparr>vn = ''D'' @ [CHR 0xE1, CHR 0xBB, CHR 0xAF] @ '' li'' @ [CHR 0xE1, CHR 0xBB, CHR 0x87] @ ''u g'' @ [CHR 0xE1, CHR 0xBB, CHR 0xAD] @ ''i sang kh'' @ [CHR 0xC3, CHR 0xB4] @ ''ng '' @ [CHR 0xC4, CHR 0x91, CHR 0xC3, CHR 0xBA] @ ''ng '' @ [CHR 0xC4, CHR 0x91, CHR 0xE1, CHR 0xBB, CHR 0x8B] @ ''nh d'' @ [CHR 0xE1, CHR 0xBA, CHR 0xA1] @ ''ng'',
          en = ''Sent data is not in the right format''\<rparr>),
       (''04'',
         \<lparr>vn = ''Kh'' @ [CHR 0xE1, CHR 0xBB, CHR 0x9F] @ ''i t'' @ [CHR 0xE1, CHR 0xBA, CHR 0xA1] @ ''o GD kh'' @ [CHR 0xC3, CHR 0xB4] @ ''ng th'' @ [CHR 0xC3, CHR 0xA0] @ ''nh c'' @ [CHR 0xC3, CHR 0xB4] @ ''ng do Website '' @ [CHR 0xC4, CHR 0x91] @ ''ang b'' @ [CHR 0xE1, CHR 0xBB, CHR 0x8B] @ '' t'' @ [CHR 0xE1, CHR 0xBA, CHR 0xA1] @ ''m kho'' @ [CHR 0xC3, CHR 0xA1],
          en = ''Payment website is not available''\<rparr>),
       (''05'',
         \<lparr>vn = ''Giao d'' @ [CHR 0xE1, CHR 0xBB, CHR 0x8B] @ ''ch kh'' @ [CHR 0xC3, CHR 0xB4] @ ''ng th'' @ [CHR 0xC3, CHR 0xA0] @ ''nh c'' @ [CHR 0xC3, CHR 0xB4] @ ''ng do: Qu'' @ [CHR 0xC3, CHR 0xBD] @ '' kh'' @ [CHR 0xC3, CHR 0xA1] @ ''ch nh'' @ [CHR 0xE1, CHR 0xBA, CHR 0xAD] @ ''p sai m'' @ [CHR 0xE1, CHR 0xBA, CHR 0xAD] @ ''t kh'' @ [CHR 0xE1, CHR 0xBA, CHR 0xA9] @ ''u thanh to'' @ [CHR 0xC3, CHR 0xA1] @ ''n qu'' @ [CHR 0xC3, CHR 0xA1] @ '' s'' @ [CHR 0xE1, CHR 0xBB, CHR 0x91] @ '' l'' @ [CHR 0xE1, CHR 0xBA, CHR 0xA7] @ ''n quy '' @ [CHR 0xC4, CHR 0x91, CHR 0xE1, CHR 0xBB, CHR 0x8B] @ ''nh. Xin qu'' @ [CHR 0xC3, CHR 0xBD] @ '' kh'' @ [CHR 0xC3, CHR 0xA1] @ ''ch vui l'' @ [CHR 0xC3, CHR 0xB2] @ ''ng th'' @ [CHR 0xE1, CHR 0xBB, CHR 0xB1] @ ''c hi'' @ [CHR 0xE1, CHR 0xBB, CHR 0x87] @ ''n l'' @ [CHR 0xE1, CHR 0xBA, CHR 0xA1] @ ''i giao d'' @ [CHR 0xE1, CHR 0xBB, CHR 0x8B] @ ''ch'',
          en = ''Transaction failed: Too many wrong password input''\<rparr>),
       (''06'',
         \<lparr>vn = ''Giao d'' @ [CHR 0xE1, CHR 0xBB, CHR 0x8B] @ ''ch kh'' @ [CHR 0xC3, CHR 0xB4] @ ''ng th'' @ [CHR 0xC3, CHR 0xA0] @ ''nh c'' @ [CHR 0xC3, CHR 0xB4] @ ''ng do Qu'' @ [CHR 0xC3, CHR 0xBD] @ '' kh'' @ [CHR 0xC3, CHR 0xA1] @ ''ch nh'' @ [CHR 0xE1, CHR 0xBA, CHR 0xAD] @ ''p sai m'' @ [CHR 0xE1, CHR 0xBA, CHR 0xAD] @ ''t kh'' @ [CHR 0xE1, CHR 0xBA, CHR 0xA9] @ ''u x'' @ [CHR 0xC3, CHR 0xA1] @ ''c th'' @ [CHR 0xE1, CHR 0xBB, CHR 0xB1] @ ''c giao d'' @ [CHR 0xE1, CHR 0xBB, CHR 0x8B] @ ''ch (OTP). Xin qu'' @ [CHR 0xC3, CHR 0xBD] @ '' kh'' @ [CHR 0xC3, CHR 0xA1] @ ''ch vui l'' @ [CHR 0xC3, CHR 0xB2] @ ''ng th'' @ [CHR 0xE1, CHR 0xBB, CHR 0xB1] @ ''c hi'' @ [CHR 0xE1, CHR 0xBB, CHR 0x87] @ ''n l'' @ [CHR 0xE1, CHR 0xBA, CHR 0xA1] @ ''i giao d'' @ [CHR 0xE1, CHR 0xBB, CHR 0x8B] @ ''ch.'',
          en = ''Transaction failed: Wrong OTP input''\<rparr>),
       (''07'',
         \<lparr>vn = ''Tr'' @ [CHR 0xE1, CHR 0xBB, CHR 0xAB] @ '' ti'' @ [CHR 0xE1, CHR 0xBB, CHR 0x81] @ ''n th'' @ [CHR 0xC3, CHR 0xA0] @ ''nh c'' @ [CHR 0xC3, CHR 0xB4] @ ''ng. Giao d'' @ [CHR 0xE1, CHR 0xBB, CHR 0x8B] @ ''ch b'' @ [CHR 0xE1, CHR 0xBB, CHR 0x8B] @ '' nghi ng'' @ [CHR 0xE1, CHR 0xBB, CHR 0x9D] @ '' (li'' @ [CHR 0xC3, CHR 0xAA] @ ''n quan t'' @ [CHR 0xE1, CHR 0xBB, CHR 0x9B] @ ''i l'' @ [CHR 0xE1, CHR 0xBB, CHR 0xAB] @ ''a '' @ [CHR 0xC4, CHR 0x91, CHR 0xE1, CHR 0xBA, CHR 0xA3] @ ''o, giao d'' @ [CHR 0xE1, CHR 0xBB, CHR 0x8B] @ ''ch b'' @ [CHR 0xE1, CHR 0xBA, CHR 0xA5] @ ''t th'' @ [CHR 0xC6, CHR 0xB0, CHR 0xE1, CHR 0xBB, CHR 0x9D] @ ''ng). '' @ [CHR 0xC4, CHR 0x90, CHR 0xE1, CHR 0xBB, CHR 0x91] @ ''i v'' @ [CHR 0xE1, CHR 0xBB, CHR 0x9B] @ ''i giao d'' @ [CHR 0xE1, CHR 0xBB, CHR 0x8B] @ ''ch n'' @ [CHR 0xC3, CHR 0xA0] @ ''y c'' @ [CHR 0xE1, CHR 0xBA, CHR 0xA7] @ ''n merchant x'' @ [CHR 0xC3, CHR 0xA1] @ ''c nh'' @ [CHR 0xE1, CHR 0xBA, CHR 0xAD] @ ''n th'' @ [CHR 0xC3, CHR 0xB4] @ ''ng qua merchant admin: T'' @ [CHR 0xE1, CHR 0xBB, CHR 0xAB] @ '' ch'' @ [CHR 0xE1, CHR 0xBB, CHR 0x91] @ ''i/'' @ [CHR 0xC4, CHR 0x90, CHR 0xE1, CHR 0xBB, CHR 0x93] @ ''ng '' @ [CHR 0xC3, CHR 0xBD] @ '' giao d'' @ [CHR 0xE1, CHR 0xBB, CHR 0x8B] @ ''ch'',
          en = ''This transaction is suspicious''\<rparr>),
       (''08'',
         \<lparr>vn = ''Giao d'' @ [CHR 0xE1, CHR 0xBB, CHR 0x8B] @ ''ch kh'' @ [CHR 0xC3, CHR 0xB4] @ ''ng th'' @ [CHR 0xC3, CHR 0xA0] @ ''nh c'' @ [CHR 0xC3, CHR 0xB4] @ ''ng do: H'' @ [CHR 0xE1, CHR 0xBB, CHR 0x87] @ '' th'' @ [CHR 0xE1, CHR 0xBB, CHR 0x91] @ ''ng Ng'' @ [CHR 0xC3, CHR 0xA2] @ ''n h'' @ [CHR 0xC3, CHR 0xA0] @ ''ng '' @ [CHR 0xC4, CHR 0x91] @ ''ang b'' @ [CHR 0xE1, CHR 0xBA, CHR 0xA3] @ ''o tr'' @ [CHR 0xC3, CHR 0xAC] @ ''. Xin qu'' @ [CHR 0xC3, CHR 0xBD] @ '' kh'' @ [CHR 0xC3, CHR 0xA1] @ ''ch t'' @ [CHR 0xE1, CHR 0xBA, CHR 0xA1] @ ''m th'' @ [CHR 0xE1, CHR 0xBB, CHR 0x9D] @ ''i kh'' @ [CHR 0xC3, CHR 0xB4] @ ''ng th'' @ [CHR 0xE1, CHR 0xBB, CHR 0xB1] @ ''c hi'' @ [CHR 0xE1, CHR 0xBB, CHR 0x87] @ ''n giao d'' @ [CHR 0xE1, CHR 0xBB, CHR 0x8B] @ ''ch b'' @ [CHR 0xE1, CHR 0xBA, CHR 0xB1] @ ''ng th'' @ [CHR 0xE1, CHR 0xBA, CHR 0xBB] @ ''/t'' @ [CHR 0xC3, CHR 0xA0] @ ''i kho'' @ [CHR 0xE1, CHR 0xBA, CHR 0xA3] @ ''n c'' @ [CHR 0xE1, CHR 0xBB, CHR 0xA7] @ ''a Ng'' @ [CHR 0xC3, CHR 0xA2] @ ''n h'' @ [CHR 0xC3, CHR 0xA0] @ ''ng n'' @ [CHR 0xC3, CHR 0xA0] @ ''y.'',
          en = ''Transaction failed: The banking system is under maintenance. Please do not temporarily make transactions by card / account of this Bank.''\<rparr>),
       (''09'',
         \<lparr>vn = ''Giao d'' @ [CHR 0xE1, CHR 0xBB, CHR 0x8B] @ ''ch kh'' @ [CHR 0xC3, CHR 0xB4] @ ''ng th'' @ [CHR 0xC3, CHR 0xA0] @ ''nh c'' @ [CHR 0xC3, CHR 0xB4] @ ''ng do: Th'' @ [CHR 0xE1, CHR 0xBA, CHR 0xBB] @ ''/T'' @ [CHR 0xC3, CHR 0xA0] @ ''i kho'' @ [CHR 0xE1, CHR 0xBA, CHR 0xA3] @ ''n c'' @ [CHR 0xE1, CHR 0xBB, CHR 0xA7] @ ''a kh'' @ [CHR 0xC3, CHR 0xA1] @ ''ch h'' @ [CHR 0xC3, CHR 0xA0] @ ''ng ch'' @ [CHR 0xC6, CHR 0xB0] @ ''a '' @ [CHR 0xC4, CHR 0x91, CHR 0xC4, CHR 0x83] @ ''ng k'' @ [CHR 0xC3, CHR 0xBD] @ '' d'' @ [CHR 0xE1, CHR 0xBB, CHR 0x8B] @ ''ch v'' @ [CHR 0xE1, CHR 0xBB, CHR 0xA5] @ '' InternetBanking t'' @ [CHR 0xE1, CHR 0xBA, CHR 0xA1] @ ''i ng'' @ [CHR 0xC3, CHR 0xA2] @ ''n h'' @ [CHR 0xC3, CHR 0xA0] @ ''ng.'',
          en = ''Transaction failed: Cards / accounts of customer who has not yet registered for Internet Banking service.''\<rparr>),
       (''10'',
         \<lparr>vn = ''Giao d'' @ [CHR 0xE1, CHR 0xBB, CHR 0x8B] @ ''ch kh'' @ [CHR 0xC3, CHR 0xB4] @ ''ng th'' @ [CHR 0xC3, CHR 0xA0] @ ''nh c'' @ [CHR 0xC3, CHR 0xB4] @ ''ng do: Kh'' @ [CHR 0xC3, CHR 0xA1] @ ''ch h'' @ [CHR 0xC3, CHR 0xA0] @ ''ng x'' @ [CHR 0xC3, CHR 0xA1] @ ''c th'' @ [CHR 0xE1, CHR 0xBB, CHR 0xB1] @ ''c th'' @ [CHR 0xC3, CHR 0xB4] @ ''ng tin th'' @ [CHR 0xE1, CHR 0xBA, CHR 0xBB] @ ''/t'' @ [CHR 0xC3, CHR 0xA0] @ ''i kho'' @ [CHR 0xE1, CHR 0xBA, CHR 0xA3] @ ''n kh'' @ [CHR 0xC3, CHR 0xB4] @ ''ng '' @ [CHR 0xC4, CHR 0x91, CHR 0xC3, CHR 0xBA] @ ''ng qu'' @ [CHR 0xC3, CHR 0xA1] @ '' 3 l'' @ [CHR 0xE1, CHR 0xBA, CHR 0xA7] @ ''n'',
          en = ''Transaction failed: Customer incorrectly validate the card / account information more than 3 times''\<rparr>),
       (''11'',
         \<lparr>vn = ''Giao d'' @ [CHR 0xE1, CHR 0xBB, CHR 0x8B] @ ''ch kh'' @ [CHR 0xC3, CHR 0xB4] @ ''ng th'' @ [CHR 0xC3, CHR 0xA0] @ ''nh c'' @ [CHR 0xC3, CHR 0xB4] @ ''ng do: '' @ [CHR 0xC4, CHR 0x90, CHR 0xC3, CHR 0xA3] @ '' h'' @ [CHR 0xE1, CHR 0xBA, CHR 0xBF] @ ''t h'' @ [CHR 0xE1, CHR 0xBA, CHR 0xA1] @ ''n ch'' @ [CHR 0xE1, CHR 0xBB, CHR 0x9D] @ '' thanh to'' @ [CHR 0xC3, CHR 0xA1] @ ''n. Xin qu'' @ [CHR 0xC3, CHR 0xBD] @ '' kh'' @ [CHR 0xC3, CHR 0xA1] @ ''ch vui l'' @ [CHR 0xC3, CHR 0xB2] @ ''ng th'' @ [CHR 0xE1, CHR 0xBB, CHR 0xB1] @ ''c hi'' @ [CHR 0xE1, CHR 0xBB, CHR 0x87] @ ''n l'' @ [CHR 0xE1, CHR 0xBA, CHR 0xA1] @ ''i giao d'' @ [CHR 0xE1, CHR 0xBB, CHR 0x8B] @ ''ch.'',
          en = ''Transaction failed: Pending payment is expired. Please try again.''\<rparr>),
       (''24'',
         \<lparr>vn = ''Giao d'' @ [CHR 0xE1, CHR 0xBB, CHR 0x8B] @ ''ch kh'' @ [CHR 0xC3, CHR 0xB4] @ ''ng th'' @ [CHR 0xC3, CHR 0xA0] @ ''nh c'' @ [CHR 0xC3, CHR 0xB4] @ ''ng do: Kh'' @ [CHR 0xC3, CHR 0xA1] @ ''ch h'' @ [CHR 0xC3, CHR 0xA0] @ ''ng h'' @ [CHR 0xE1, CHR 0xBB, CHR 0xA7] @ ''y giao d'' @ [CHR 0xE1, CHR 0xBB, CHR 0x8B] @ ''ch'',
          en = ''Transaction canceled''\<rparr>),
       (''51'',
         \<lparr>vn = ''Giao d'' @ [CHR 0xE1, CHR 0xBB, CHR 0x8B] @ ''ch kh'' @ [CHR 0xC3, CHR 0xB4] @ ''ng th'' @ [CHR 0xC3, CHR 0xA0] @ ''nh c'' @ [CHR 0xC3, CHR 0xB4] @ ''ng do: T'' @ [CHR 0xC3, CHR 0xA0] @ ''i kho'' @ [CHR 0xE1, CHR 0xBA, CHR 0xA3] @ ''n c'' @ [CHR 0xE1, CHR 0xBB, CHR 0xA7] @ ''a qu'' @ [CHR 0xC3, CHR 0xBD] @ '' kh'' @ [CHR 0xC3, CHR 0xA1] @ ''ch kh'' @ [CHR 0xC3, CHR 0xB4] @ ''ng '' @ [CHR 0xC4, CHR 0x91, CHR 0xE1, CHR 0xBB, CHR 0xA7] @ '' s'' @ [CHR 0xE1, CHR 0xBB, CHR 0x91] @ '' d'' @ [CHR 0xC6, CHR 0xB0] @ '' '' @ [CHR 0xC4, CHR 0x91, CHR 0xE1, CHR 0xBB, CHR 0x83] @ '' th'' @ [CHR 0xE1, CHR 0xBB, CHR 0xB1] @ ''c hi'' @ [CHR 0xE1, CHR 0xBB, CHR 0x87] @ ''n giao d'' @ [CHR 0xE1, CHR 0xBB, CHR 0x8B] @ ''ch.'',
          en = ''Transaction failed: Your account is not enough balance to make the transaction.''\<rparr>),
       (''65'',
         \<lparr>vn = ''Giao d'' @ [CHR 0xE1, CHR 0xBB, CHR 0x8B] @ ''ch kh'' @ [CHR 0xC3, CHR 0xB4] @ ''ng th'' @ [CHR 0xC3, CHR 0xA0] @ ''nh c'' @ [CHR 0xC3, CHR 0xB4] @ ''ng do: T'' @ [CHR 0xC3, CHR 0xA0] @ ''i kho'' @ [CHR 0xE1, CHR 0xBA, CHR 0xA3] @ ''n c'' @ [CHR 0xE1, CHR 0xBB, CHR 0xA7] @ ''a Qu'' @ [CHR 0xC3, CHR 0xBD] @ '' kh'' @ [CHR 0xC3, CHR 0xA1] @ ''ch '' @ [CHR 0xC4, CHR 0x91, CHR 0xC3, CHR 0xA3] @ '' v'' @ [CHR 0xC6, CHR 0xB0, CHR 0xE1, CHR 0xBB, CHR 0xA3] @ ''t qu'' @ [CHR 0xC3, CHR 0xA1] @ '' h'' @ [CHR 0xE1, CHR 0xBA, CHR 0xA1] @ ''n m'' @ [CHR 0xE1, CHR 0xBB, CHR 0xA9] @ ''c giao d'' @ [CHR 0xE1, CHR 0xBB, CHR 0x8B] @ ''ch trong ng'' @ [CHR 0xC3, CHR 0xA0] @ ''y.'',
          en = ''Transaction failed: Your account has exceeded the daily limit.''\<rparr>),
       (''75'',
         \<lparr>vn = ''Ng'' @ [CHR 0xC3, CHR 0xA2] @ ''n h'' @ [CHR 0xC3, CHR 0xA0] @ ''ng thanh to'' @ [CHR 0xC3, CHR 0xA1] @ ''n '' @ [CHR 0xC4, CHR 0x91] @ ''ang b'' @ [CHR 0xE1, CHR 0xBA, CHR 0xA3] @ ''o tr'' @ [CHR 0xC3, CHR 0xAC],
          en = ''Banking system is under maintenance''\<rparr>),
       (''default'',
         \<lparr>vn = ''Giao d'' @ [CHR 0xE1, CHR 0xBB, CHR 0x8B] @ ''ch th'' @ [CHR 0xE1, CHR 0xBA, CHR 0xA5] @ ''t b'' @ [CHR 0xE1, CHR 0xBA, CHR 0xA1] @ ''i'',
          en = ''Failure''\<rparr>)
     ]"

text \<open>
  \<open>responseMap.get(responseCode) ?? responseMap.get('default')\<close>, then the entry's text in
  the locale.
\<close>

definition getResponseByStatusCode :: "string \<Rightarrow> VnpLocale \<Rightarrow> string" where
  "getResponseByStatusCode responseCode locale =
     (case map_of responseMap responseCode of
        Some respondText \<Rightarrow> select_locale respondText locale
      | None \<Rightarrow>
          (case map_of responseMap ''default'' of
             Some respondText \<Rightarrow> select_locale respondText locale
           | None \<Rightarrow> []))"

section \<open>The VNPay class\<close>

text \<open>
  The configuration object: a field that was not given is \<open>None\<close> (undefined).
\<close>

record ConfigVnpayDTO =
  paymentGateway :: "string option"
  tmnCode :: "string option"
  secureSecret :: "string option"
  returnUrl :: "string option"

text \<open>The instance: its configuration and the five defaults behind \<open>configDefault\<close>.\<close>

record VNPay =
  globalConfig :: ConfigVnpayDTO
  vnp_Version :: string
  vnp_Command :: string
  vnp_CurrCode :: string
  vnp_Locale :: VnpLocale
  vnp_OrderType :: string

text \<open>
  What a call leaves behind: the promise it returned once every job it queued has run,
  the caller's argument object after the call, and the instance after the call.
\<close>

record 'a call =
  outcome :: "'a promise"
  argument :: jsobj
  receiver :: VNPay

text \<open>\<open>!field\<close> on a configuration field: undefined and the empty string are falsy.\<close>

definition falsy_field :: "string option \<Rightarrow> bool" where
  "falsy_field x = (case x of None \<Rightarrow> True | Some s \<Rightarrow> s = [])"

definition of_optional :: "string option \<Rightarrow> jsval" where
  "of_optional x = (case x of None \<Rightarrow> JUndefined | Some s \<Rightarrow> JStr s)"

text \<open>\<open>String(x)\<close> on a configuration field.\<close>

definition String_of :: "string option \<Rightarrow> string" where
  "String_of x = (case x of None \<Rightarrow> ''undefined'' | Some s \<Rightarrow> s)"

text \<open>
  The values of the enum \<open>VnpLocale\<close>, which are the keys of the catalog's entries.
\<close>

fun VnpLocale_value :: "VnpLocale \<Rightarrow> string" where
  "VnpLocale_value VN = ''vn''"
| "VnpLocale_value EN = ''en''"

definition CRYPTO_ALGORITHM :: string where
  "CRYPTO_ALGORITHM = ''sha512''"

text \<open>
  Modelled from the spec: the constant \<open>PAYMENT_GATEWAY_SANDBOX\<close> of \<open>./constants\<close>, which
  is not among the sources; the spec says that the default gateway points to a sandbox
  endpoint, and the class's own example names it.
\<close>

definition PAYMENT_GATEWAY_SANDBOX :: string where
  "PAYMENT_GATEWAY_SANDBOX = ''https://sandbox.vnpayment.vn/paymentv2/vpcpay.html''"

text \<open>
  Modelled from the spec: the constructors of \<open>ReturnQueryFromVNPayDTO\<close> and of
  \<open>VerifyReturnUrlDTO\<close> (\<open>./dtos\<close> is not among the sources). The spec has the return
  query as the raw mapping of all fields received, and the result as carrying every
  field it is given: each constructor yields an object with the fields of its argument.
\<close>

definition ReturnQueryFromVNPayDTO :: "jsobj \<Rightarrow> jsobj" where
  "ReturnQueryFromVNPayDTO init = init"

definition VerifyReturnUrlDTO :: "jsobj \<Rightarrow> jsobj" where
  "VerifyReturnUrlDTO init = init"

definition configDefault :: "VNPay \<Rightarrow> jsobj" where
  "configDefault this =
     [(''vnp_Version'', JStr (vnp_Version this)),
      (''vnp_Command'', JStr (vnp_Command this)),
      (''vnp_CurrCode'', JStr (vnp_CurrCode this)),
      (''vnp_Locale'', JStr (VnpLocale_value (vnp_Locale this))),
      (''vnp_OrderType'', JStr (vnp_OrderType this))]"

text \<open>\<open>validateGlobalConfig\<close>: \<open>None\<close> is the return value \<open>true\<close>.\<close>

definition validateGlobalConfig :: "VNPay \<Rightarrow> error option" where
  "validateGlobalConfig this =
     (if falsy_field (secureSecret (globalConfig this)) then Some (Error ''Missing secure secret'')
      else if falsy_field (tmnCode (globalConfig this)) then Some (Error ''Missing merchant code'')
      else if falsy_field (paymentGateway (globalConfig this))
        then Some (Error ''Missing payment gateway'')
      else None)"

subsection \<open>buildPaymentUrl\<close>

text \<open>
  The merged fields: \<open>{ ...this.configDefault, ...payload }\<close>, then the creation date,
  the amount times 100 and the merchant code of the configuration.
\<close>

definition build_data :: "platform \<Rightarrow> VNPay \<Rightarrow> jsobj \<Rightarrow> jsobj" where
  "build_data pf this payload =
     (let data0 = spread (configDefault this) payload;
          data1 = obj_set data0 ''vnp_CreateDate'' (dateFormat_now pf);
          data2 = obj_set data1 ''vnp_Amount''
                    (js_times pf (obj_get data1 ''vnp_Amount'') (JNum 100))
      in obj_set data2 ''vnp_TmnCode'' (of_optional (tmnCode (globalConfig this))))"

text \<open>The loop over the sorted entries: an empty value is skipped, the others are appended.\<close>

fun build_forEach :: "URL \<Rightarrow> jsobj \<Rightarrow> error + URL" where
  "build_forEach redirectUrl [] = Inr redirectUrl"
| "build_forEach redirectUrl ((key, val) # entries) =
     (if \<not> truthy val \<or> val = JStr [] \<or> val = JUndefined \<or> val = JNull
      then build_forEach redirectUrl entries
      else (case toString val of
              Inl e \<Rightarrow> Inl e
            | Inr s \<Rightarrow> build_forEach (searchParams_append redirectUrl key s) entries))"

text \<open>
  The URL object at the end of the executor: the gateway's URL, the entries, and the
  signature over \<open>redirectUrl.search.slice(1)\<close> appended as \<open>vnp_SecureHash\<close>. \<open>Inl\<close> is
  what the executor throws.
\<close>

definition build_redirectUrl :: "platform \<Rightarrow> VNPay \<Rightarrow> jsobj \<Rightarrow> error + URL" where
  "build_redirectUrl pf this data =
     (case URL_parse pf (String_of (paymentGateway (globalConfig this))) of
        None \<Rightarrow> Inl TypeError
      | Some redirectUrl \<Rightarrow>
          (case build_forEach redirectUrl (sort_entries pf data) of
             Inl e \<Rightarrow> Inl e
           | Inr u \<Rightarrow>
               (case secureSecret (globalConfig this) of
                  None \<Rightarrow> Inl TypeError
                | Some secretKey \<Rightarrow>
                    (let signed_hex = digest_hex
                           (createHmac pf CRYPTO_ALGORITHM secretKey (drop 1 (URL_search u)))
                     in Inr (searchParams_append u ''vnp_SecureHash'' signed_hex)))))"

text \<open>
  \<open>if (!payload.vnp_ReturnUrl) { payload.vnp_ReturnUrl = this.globalConfig.returnUrl; }\<close>:
  the assignment is to the caller's object.
\<close>

definition default_returnUrl :: "VNPay \<Rightarrow> jsobj \<Rightarrow> jsobj" where
  "default_returnUrl this payload =
     (if \<not> truthy (obj_get payload ''vnp_ReturnUrl'')
      then obj_set payload ''vnp_ReturnUrl'' (of_optional (returnUrl (globalConfig this)))
      else payload)"

text \<open>
  The call. The executor runs to its end first: it settles the promise with the URL, or
  with what it threw. The callback given to \<open>validate(dataValidate).then\<close> is a job that
  runs after the executor, on the promise as the executor left it.
\<close>

definition buildPaymentUrl :: "platform \<Rightarrow> VNPay \<Rightarrow> jsobj \<Rightarrow> string call" where
  "buildPaymentUrl pf this payload =
     (case validateGlobalConfig this of
        Some err \<Rightarrow> \<lparr>outcome = reject Pending err, argument = payload, receiver = this\<rparr>
      | None \<Rightarrow>
          (let payload1 = default_returnUrl this payload;
               data = build_data pf this payload1;
               err = validate pf data;
               executed =
                 (case build_redirectUrl pf this data of
                    Inl e \<Rightarrow> reject Pending e
                  | Inr redirectUrl \<Rightarrow> resolve Pending (URL_toString redirectUrl));
               settled =
                 (if length err > 0 then reject executed (ValidationErrors err) else executed)
           in \<lparr>outcome = settled, argument = payload1, receiver = this\<rparr>))"

subsection \<open>verifyReturnUrl\<close>

fun verify_forEach :: "URL \<Rightarrow> jsobj \<Rightarrow> error + URL" where
  "verify_forEach urlReturn [] = Inr urlReturn"
| "verify_forEach urlReturn ((key, val) # entries) =
     (if \<not> truthy val \<or> val = JStr [] \<or> val = JUndefined \<or> val = JNull
      then verify_forEach urlReturn entries
      else (case toString val of
              Inl e \<Rightarrow> Inl e
            | Inr s \<Rightarrow> verify_forEach (searchParams_append urlReturn key s) entries))"

text \<open>
  The signature recomputed over the fields of the query that are left after the two
  signature fields are deleted.
\<close>

definition verify_signed :: "platform \<Rightarrow> VNPay \<Rightarrow> jsobj \<Rightarrow> error + string" where
  "verify_signed pf this vnpayReturnQuery =
     (case URL_parse pf
             (case paymentGateway (globalConfig this) of
                None \<Rightarrow> PAYMENT_GATEWAY_SANDBOX
              | Some g \<Rightarrow> g) of
        None \<Rightarrow> Inl TypeError
      | Some urlReturn \<Rightarrow>
          (case verify_forEach urlReturn (sort_entries pf vnpayReturnQuery) of
             Inl e \<Rightarrow> Inl e
           | Inr u \<Rightarrow>
               (case secureSecret (globalConfig this) of
                  None \<Rightarrow> Inl TypeError
                | Some secretKey \<Rightarrow>
                    Inr (digest_hex
                           (createHmac pf CRYPTO_ALGORITHM secretKey (drop 1 (URL_search u)))))))"

text \<open>The fields of the query with \<open>vnp_SecureHash\<close> and \<open>vnp_SecureHashType\<close> deleted.\<close>

definition strip_signature :: "jsobj \<Rightarrow> jsobj" where
  "strip_signature q = obj_delete (obj_delete q ''vnp_SecureHash'') ''vnp_SecureHashType''"

definition verifyReturnUrl :: "platform \<Rightarrow> VNPay \<Rightarrow> jsobj \<Rightarrow> jsobj call" where
  "verifyReturnUrl pf this vnpayReturnQuery1 =
     (case validateGlobalConfig this of
        Some err \<Rightarrow>
          \<lparr>outcome = reject Pending err, argument = vnpayReturnQuery1, receiver = this\<rparr>
      | None \<Rightarrow>
          (let query0 = ReturnQueryFromVNPayDTO vnpayReturnQuery1;
               secureHash = obj_get query0 ''vnp_SecureHash'';
               vnpayReturnQuery = strip_signature query0;
               executed =
                 (case toString (obj_get vnpayReturnQuery ''vnp_ResponseCode'') of
                    Inl e \<Rightarrow> reject Pending e
                  | Inr code \<Rightarrow>
                      (let outputResults =
                             [(''isSuccess'',
                               JBool (obj_get vnpayReturnQuery ''vnp_ResponseCode'' = JStr ''00'')),
                              (''message'',
                               JStr (getResponseByStatusCode code (vnp_Locale this)))]
                       in (case verify_signed pf this vnpayReturnQuery of
                             Inl e \<Rightarrow> reject Pending e
                           | Inr signed_hex \<Rightarrow>
                               (let results =
                                      (if secureHash = JStr signed_hex
                                       then obj_assign outputResults
                                              [(''isSuccess'',
                                                JBool (obj_get vnpayReturnQuery ''vnp_ResponseCode''
                                                       = JStr ''00''))]
                                       else obj_assign outputResults
                                              [(''isSuccess'', JBool False),
                                               (''message'', JStr ''Wrong checksum'')])
                                in resolve Pending
                                     (VerifyReturnUrlDTO (spread vnpayReturnQuery results))))))
           in \<lparr>outcome = executed, argument = vnpayReturnQuery1, receiver = this\<rparr>))"

section \<open>Notions the properties are stated with\<close>

text \<open>
  The fields a call of \<open>buildPaymentUrl\<close> signs, and the URL object it ends with.
\<close>

definition merged_fields :: "platform \<Rightarrow> VNPay \<Rightarrow> jsobj \<Rightarrow> jsobj" where
  "merged_fields pf this payload = build_data pf this (default_returnUrl this payload)"

definition built_URL :: "platform \<Rightarrow> VNPay \<Rightarrow> jsobj \<Rightarrow> error + URL" where
  "built_URL pf this payload = build_redirectUrl pf this (merged_fields pf this payload)"





text \<open>The five values the specification lists as empty.\<close>

definition listed_empty :: "jsval \<Rightarrow> bool" where
  "listed_empty v =
     (v = JNull \<or> v = JUndefined \<or> v = JStr [] \<or> v = JNum 0 \<or> v = JBool False)"

text \<open>The text of a value that has one; the empty string stands for a throwing call.\<close>

definition text_of :: "jsval \<Rightarrow> string" where
  "text_of v = (case toString v of Inl e \<Rightarrow> [] | Inr s \<Rightarrow> s)"

text \<open>An object has each key once.\<close>

definition wf_object :: "jsobj \<Rightarrow> bool" where
  "wf_object obj = distinct (map fst obj)"

text \<open>
  A valid configuration: the three fields are there, and the gateway parses as a URL
  that has no query parameters of its own.
\<close>

definition valid_config :: "platform \<Rightarrow> VNPay \<Rightarrow> bool" where
  "valid_config pf this =
     (validateGlobalConfig this = None \<and>
      (case URL_parse pf (String_of (paymentGateway (globalConfig this))) of
         None \<Rightarrow> False
       | Some u \<Rightarrow> searchParams u = []))"

text \<open>
  The comparator is consistent (total and transitive), as \<open>localeCompare\<close> is; the digest
  of the algorithm \<open>sha512\<close> has 64 bytes.
\<close>

definition consistent_compare :: "platform \<Rightarrow> bool" where
  "consistent_compare pf =
     ((\<forall>a b. localeCompare pf a b \<le> 0 \<or> localeCompare pf b a \<le> 0) \<and>
      (\<forall>a b c. localeCompare pf a b \<le> 0 \<and> localeCompare pf b c \<le> 0
         \<longrightarrow> localeCompare pf a c \<le> 0))"

definition sha512_digest :: "platform \<Rightarrow> bool" where
  "sha512_digest pf = (\<forall>key msg. length (createHmac pf CRYPTO_ALGORITHM key msg) = 64)"

definition safe_integer :: "int \<Rightarrow> bool" where
  "safe_integer n = (\<bar>n\<bar> < 2 ^ 53)"

text \<open>
  What the loop of either method appends for a list of entries: the entries with a truthy
  value, each with the text of its value; and the URL after a list of parameters is
  appended.
\<close>

definition kept_params :: "jsobj \<Rightarrow> (string \<times> string) list" where
  "kept_params es = map (\<lambda>e. (fst e, text_of (snd e))) (filter (\<lambda>e. truthy (snd e)) es)"

definition append_params :: "URL \<Rightarrow> (string \<times> string) list \<Rightarrow> URL" where
  "append_params u ps = fold (\<lambda>p u. searchParams_append u (fst p) (snd p)) ps u"

text \<open>The parameters a call of \<open>buildPaymentUrl\<close> signs, in the order it signs them.\<close>

definition signed_fields :: "platform \<Rightarrow> VNPay \<Rightarrow> jsobj \<Rightarrow> (string \<times> string) list" where
  "signed_fields pf this payload = kept_params (sort_entries pf (merged_fields pf this payload))"


section \<open>An example platform, instance and payloads\<close>

text \<open>
  A platform to run the model on: byte-wise comparison of keys, a stand-in for the keyed
  hash that returns 64 bytes, a parser that takes the whole string as the part before
  the query, a validator that asks for \<open>vnp_TxnRef\<close>, and a fixed clock.
\<close>

fun compare_bytes :: "string \<Rightarrow> string \<Rightarrow> int" where
  "compare_bytes [] [] = 0"
| "compare_bytes [] (y # ys) = - 1"
| "compare_bytes (x # xs) [] = 1"
| "compare_bytes (x # xs) (y # ys) =
     (if (of_char x :: nat) < of_char y then - 1
      else if (of_char y :: nat) < of_char x then 1
      else compare_bytes xs ys)"

definition example_hmac :: "string \<Rightarrow> string \<Rightarrow> string \<Rightarrow> 8 word list" where
  "example_hmac alg key msg = map (\<lambda>i. of_nat (i + length key + length msg)) [0..<64]"

definition example_platform :: platform where
  "example_platform =
     \<lparr>localeCompare = compare_bytes,
      createHmac = example_hmac,
      URL_parse = (\<lambda>s. Some \<lparr>url_head = s, url_query = None, searchParams = [],
                              url_fragment = None\<rparr>),
      validate = (\<lambda>data. if obj_get data ''vnp_TxnRef'' = JUndefined then [''vnp_TxnRef''] else []),
      dateFormat_now = JNum 20231224101530,
      StringToNumber = (\<lambda>s. JNaN)\<rparr>"

text \<open>The instance and the payload of the class's own example.\<close>

definition example_vnpay :: VNPay where
  "example_vnpay =
     \<lparr>globalConfig =
        \<lparr>paymentGateway = Some ''https://sandbox.vnpayment.vn/paymentv2/vpcpay.html'',
         tmnCode = Some ''TMNCODE'',
         secureSecret = Some ''SERCRET'',
         returnUrl = Some ''http://localhost:8888/order/vnpay_return''\<rparr>,
      vnp_Version = ''2.1.0'',
      vnp_Command = ''pay'',
      vnp_CurrCode = ''VND'',
      vnp_Locale = VN,
      vnp_OrderType = ''other''\<rparr>"

definition example_payload :: jsobj where
  "example_payload =
     [(''vnp_Amount'', JNum 100000),
      (''vnp_IpAddr'', JStr ''192.168.0.1''),
      (''vnp_ReturnUrl'', JStr ''http://localhost:8888/order/vnpay_return''),
      (''vnp_TxnRef'', JStr ''12345678''),
      (''vnp_OrderInfo'', JStr ''Thanh toan cho ma GD: 12345678'')]"

text \<open>The same payload without its transaction reference and without its return URL.\<close>

definition example_payload_incomplete :: jsobj where
  "example_payload_incomplete =
     [(''vnp_Amount'', JNum 100000),
      (''vnp_IpAddr'', JStr ''192.168.0.1''),
      (''vnp_OrderInfo'', JStr ''Thanh toan cho ma GD: 12345678'')]"

text \<open>The gateway of the example as a URL object, before anything is appended.\<close>

definition example_URL :: URL where
  "example_URL =
     \<lparr>url_head = ''https://sandbox.vnpayment.vn/paymentv2/vpcpay.html'', url_query = None,
      searchParams = [], url_fragment = None\<rparr>"


text \<open>The example instance with another secret, merchant code and gateway.\<close>

definition example_vnpay_with :: "string option \<Rightarrow> string option \<Rightarrow> string option \<Rightarrow> VNPay" where
  "example_vnpay_with secret merchant gateway =
     example_vnpay\<lparr>globalConfig :=
       \<lparr>paymentGateway = gateway, tmnCode = merchant, secureSecret = secret, returnUrl = None\<rparr>\<rparr>"

section \<open>Auxiliary facts\<close>

subsection \<open>Values\<close>

lemma skip_condition: "(\<not> truthy v \<or> v = JStr [] \<or> v = JUndefined \<or> v = JNull) = (\<not> truthy v)"
  by (cases v) auto

lemma truthy_iff: "truthy v = (\<not> (listed_empty v \<or> v = JNaN))"
  by (cases v) (auto simp: listed_empty_def)

lemma toString_truthy: "truthy v \<Longrightarrow> toString v = Inr (text_of v)"
  by (cases v) (auto simp: text_of_def)



subsection \<open>Objects\<close>

lemma map_of_replace:
  "map_of (map (\<lambda>e. if fst e = k then (k, v) else e) obj) x =
     (if x = k \<and> k \<in> fst ` set obj then Some v else map_of obj x)"
  by (induction obj) (auto, force+)

lemma map_of_obj_set: "map_of (obj_set obj k v) = (map_of obj)(k \<mapsto> v)"
proof (cases "k \<in> fst ` set obj")
  case True
  then show ?thesis by (auto simp: obj_set_def fun_eq_iff map_of_replace)
next
  case False
  then have "map_of obj k = None" by (simp add: map_of_eq_None_iff)
  with False show ?thesis by (auto simp: obj_set_def fun_eq_iff map_add_def split: option.splits)
qed

lemma obj_get_obj_set: "obj_get (obj_set obj k v) k' = (if k' = k then v else obj_get obj k')"
  by (simp add: obj_get_def map_of_obj_set)

lemma keys_obj_set: "map fst (obj_set obj k v) = (if k \<in> fst ` set obj then map fst obj else map fst obj @ [k])"
  by (auto simp: obj_set_def intro!: map_idI)

lemma wf_obj_set: "wf_object obj \<Longrightarrow> wf_object (obj_set obj k v)"
  by (auto simp: wf_object_def keys_obj_set)

lemma wf_obj_assign: "wf_object t \<Longrightarrow> wf_object (obj_assign t s)"
  unfolding obj_assign_def by (induction s arbitrary: t) (auto simp: wf_obj_set)

lemma map_of_obj_assign: "map_of (obj_assign t s) = map_of t ++ map_of (rev s)"
  unfolding obj_assign_def
proof (induction s arbitrary: t)
  case Nil then show ?case by simp
next
  case (Cons e s)
  show ?case by (simp add: Cons map_of_obj_set) (cases e, simp add: fun_eq_iff map_add_def split: option.splits)
qed

lemma wf_spread: "wf_object (spread a b)"
proof -
  have "wf_object []" by (simp add: wf_object_def)
  then show ?thesis unfolding spread_def by (intro wf_obj_assign)
qed

lemma map_of_rev_distinct: "distinct (map fst xs) \<Longrightarrow> map_of (rev xs) = map_of xs"
  by (simp add: map_of_inject_set rev_map[symmetric])

lemma obj_get_spread: "wf_object b \<Longrightarrow> obj_get (spread a b) k = (case map_of b k of Some v \<Rightarrow> v | None \<Rightarrow> (case map_of (rev a) k of Some v \<Rightarrow> v | None \<Rightarrow> JUndefined))"
  by (simp add: spread_def obj_get_def map_of_obj_assign map_of_rev_distinct wf_object_def map_add_def split: option.splits)

lemma map_of_obj_delete: "map_of (obj_delete obj k) = (map_of obj)(k := None)"
  unfolding obj_delete_def by (induction obj) (auto simp: fun_eq_iff)

lemma obj_get_obj_delete: "obj_get (obj_delete obj k) k' = (if k' = k then JUndefined else obj_get obj k')"
  by (simp add: obj_get_def map_of_obj_delete)

subsection \<open>The sorted entries are the entries\<close>

lemma set_insort_entry: "set (insort_entry pf e ys) = insert e (set ys)"
  by (induction ys) auto

lemma set_sort_entries: "set (sort_entries pf xs) = set xs"
  unfolding sort_entries_def by (induction xs) (auto simp: set_insort_entry)

lemma keys_insort_entry_distinct: "distinct (map fst (insort_entry pf e ys)) = (fst e \<notin> fst ` set ys \<and> distinct (map fst ys))"
  by (induction ys) (auto simp: set_insort_entry)

lemma wf_sort_entries: "wf_object xs \<Longrightarrow> wf_object (sort_entries pf xs)"
  unfolding sort_entries_def wf_object_def
  by (induction xs) (auto simp: keys_insort_entry_distinct set_sort_entries[unfolded sort_entries_def])

subsection \<open>The loops append the kept parameters\<close>

lemma build_forEach_eq: "build_forEach u es = Inr (append_params u (kept_params es))"
proof (induction es arbitrary: u)
  case Nil
  then show ?case by (simp add: append_params_def kept_params_def)
next
  case (Cons e es)
  obtain k v where e: "e = (k, v)" by (cases e)
  show ?case
  proof (cases "truthy v")
    case True
    then show ?thesis
      using Cons[of "searchParams_append u k (text_of v)"]
      by (auto simp: e toString_truthy append_params_def kept_params_def)
  next
    case False
    then show ?thesis using Cons[of u]
      by (simp add: e skip_condition append_params_def kept_params_def)
  qed
qed

lemma verify_forEach_eq: "verify_forEach u es = Inr (append_params u (kept_params es))"
proof (induction es arbitrary: u)
  case Nil
  then show ?case by (simp add: append_params_def kept_params_def)
next
  case (Cons e es)
  obtain k v where e: "e = (k, v)" by (cases e)
  show ?case
  proof (cases "truthy v")
    case True
    then show ?thesis
      using Cons[of "searchParams_append u k (text_of v)"]
      by (auto simp: e toString_truthy append_params_def kept_params_def)
  next
    case False
    then show ?thesis using Cons[of u]
      by (simp add: e skip_condition append_params_def kept_params_def)
  qed
qed

lemma urlencoded_empty_iff: "(urlencoded ps = []) = (ps = [])"
  by (induction ps rule: urlencoded.induct) auto


lemma searchParams_append_params: "searchParams (append_params u ps) = searchParams u @ ps"
  unfolding append_params_def
  by (induction ps arbitrary: u) (auto simp: searchParams_append_def Let_def)

lemma head_append_params: "url_head (append_params u ps) = url_head u"
  unfolding append_params_def
  by (induction ps arbitrary: u) (auto simp: searchParams_append_def Let_def)

lemma fragment_append_params: "url_fragment (append_params u ps) = url_fragment u"
  unfolding append_params_def
  by (induction ps arbitrary: u) (auto simp: searchParams_append_def Let_def)

lemma append_params_snoc:
  "append_params u (ps @ [p]) = searchParams_append (append_params u ps) (fst p) (snd p)"
  by (simp add: append_params_def)

lemma query_searchParams_append:
  "url_query (searchParams_append u k v) = Some (urlencoded (searchParams u @ [(k, v)]))"
  by (simp add: searchParams_append_def Let_def urlencoded_empty_iff)

lemma query_append_params:
  "ps \<noteq> [] \<Longrightarrow> url_query (append_params u ps) = Some (urlencoded (searchParams u @ ps))"
proof (induction ps rule: rev_induct)
  case Nil then show ?case by simp
next
  case (snoc p ps)
  show ?case
    by (simp add: append_params_snoc query_searchParams_append searchParams_append_params)
qed

lemma search_append_params:
  "ps \<noteq> [] \<Longrightarrow> drop 1 (URL_search (append_params u ps)) = urlencoded (searchParams u @ ps)"
  by (simp add: URL_search_def query_append_params urlencoded_empty_iff)

subsection \<open>The sort is sorted, keeps a sorted list and commutes with a filter\<close>

lemma sorted_insort_entry:
  assumes "consistent_compare pf"
  shows "sorted_wrt (\<lambda>a b. localeCompare pf (fst a) (fst b) \<le> 0) ys \<Longrightarrow>
         sorted_wrt (\<lambda>a b. localeCompare pf (fst a) (fst b) \<le> 0) (insort_entry pf e ys)"
proof (induction ys)
  case Nil then show ?case by simp
next
  case (Cons y ys)
  from assms have tot: "\<And>a b. localeCompare pf a b \<le> 0 \<or> localeCompare pf b a \<le> 0"
    and tr: "\<And>a b c. localeCompare pf a b \<le> 0 \<Longrightarrow> localeCompare pf b c \<le> 0 \<Longrightarrow> localeCompare pf a c \<le> 0"
    unfolding consistent_compare_def by blast+
  show ?case
  proof (cases "localeCompare pf (fst e) (fst y) \<le> 0")
    case True
    with Cons.prems tr show ?thesis by auto
  next
    case False
    with tot[of "fst e" "fst y"] have "localeCompare pf (fst y) (fst e) \<le> 0" by simp
    with False Cons show ?thesis by (auto simp: set_insort_entry)
  qed
qed

lemma sorted_sort_entries:
  "consistent_compare pf \<Longrightarrow>
   sorted_wrt (\<lambda>a b. localeCompare pf (fst a) (fst b) \<le> 0) (sort_entries pf xs)"
  unfolding sort_entries_def by (induction xs) (auto intro: sorted_insort_entry)

lemma insort_entry_sorted_id:
  "\<forall>y\<in>set ys. localeCompare pf (fst e) (fst y) \<le> 0 \<Longrightarrow> insort_entry pf e ys = e # ys"
  by (cases ys) auto

lemma sort_entries_sorted_id:
  "sorted_wrt (\<lambda>a b. localeCompare pf (fst a) (fst b) \<le> 0) xs \<Longrightarrow> sort_entries pf xs = xs"
  unfolding sort_entries_def by (induction xs) (auto simp: insort_entry_sorted_id)

lemma filter_insort_entry:
  assumes "consistent_compare pf"
  shows "sorted_wrt (\<lambda>a b. localeCompare pf (fst a) (fst b) \<le> 0) ys \<Longrightarrow>
         filter P (insort_entry pf e ys) =
           (if P e then insort_entry pf e (filter P ys) else filter P ys)"
proof (induction ys)
  case Nil then show ?case by simp
next
  case (Cons y ys)
  from assms have tr: "\<And>a b c. localeCompare pf a b \<le> 0 \<Longrightarrow> localeCompare pf b c \<le> 0 \<Longrightarrow> localeCompare pf a c \<le> 0"
    unfolding consistent_compare_def by blast
  show ?case
  proof (cases "localeCompare pf (fst e) (fst y) \<le> 0")
    case True
    have "\<forall>z\<in>set (filter P ys). localeCompare pf (fst e) (fst z) \<le> 0"
      using True Cons.prems tr by auto
    then have "insort_entry pf e (filter P ys) = e # filter P ys"
      by (rule insort_entry_sorted_id)
    with True show ?thesis by auto
  next
    case False
    with Cons show ?thesis by auto
  qed
qed

lemma filter_sort_entries:
  "consistent_compare pf \<Longrightarrow> filter P (sort_entries pf xs) = sort_entries pf (filter P xs)"
proof (induction xs)
  case Nil then show ?case by (simp add: sort_entries_def)
next
  case (Cons x xs)
  have s: "sorted_wrt (\<lambda>a b. localeCompare pf (fst a) (fst b) \<le> 0) (foldr (insort_entry pf) xs [])"
    using sorted_sort_entries[OF Cons.prems, of xs] by (simp add: sort_entries_def)
  show ?case using Cons
    by (simp add: sort_entries_def filter_insort_entry[OF Cons.prems s])
qed

subsection \<open>The digest in hexadecimal\<close>

lemma hex_byte_chars: "set (hex_byte b) \<subseteq> set ''0123456789abcdef''"
proof -
  have "unat b < 256" using unsigned_less[of b, where 'a=nat] by simp
  then have d: "unat b div 16 < 16" by simp
  have m: "unat b mod 16 < 16" by simp
  have "\<And>n. n < 16 \<Longrightarrow> ''0123456789abcdef'' ! n \<in> set ''0123456789abcdef''"
    by (rule nth_mem) simp
  with d m show ?thesis unfolding hex_byte_def by simp
qed

lemma digest_hex_chars: "set (digest_hex bs) \<subseteq> set ''0123456789abcdef''"
  unfolding digest_hex_def using hex_byte_chars by (induction bs) auto

lemma length_digest_hex: "length (digest_hex bs) = 2 * length bs"
  unfolding digest_hex_def by (induction bs) (auto simp: hex_byte_def)




subsection \<open>The merged fields\<close>





lemma wf_default_returnUrl: "wf_object p \<Longrightarrow> wf_object (default_returnUrl this p)"
  by (simp add: default_returnUrl_def wf_obj_set)

lemma obj_get_default_returnUrl:
  "k \<noteq> ''vnp_ReturnUrl'' \<Longrightarrow> obj_get (default_returnUrl this p) k = obj_get p k"
  by (simp add: default_returnUrl_def obj_get_obj_set)

lemma wf_build_data: "wf_object (build_data pf this p)"
  by (simp add: build_data_def Let_def wf_obj_set wf_spread)


lemma keys_configDefault:
  "fst ` set (configDefault this) =
     {''vnp_Version'', ''vnp_Command'', ''vnp_CurrCode'', ''vnp_Locale'', ''vnp_OrderType''}"
  by (auto simp: configDefault_def)

lemma obj_get_spread_configDefault:
  "wf_object p \<Longrightarrow> k \<notin> fst ` set (configDefault this) \<Longrightarrow>
   obj_get (spread (configDefault this) p) k = obj_get p k"
proof -
  assume wf: "wf_object p" and k: "k \<notin> fst ` set (configDefault this)"
  from k have "k \<notin> fst ` set (rev (configDefault this))" by simp
  then have "map_of (rev (configDefault this)) k = None"
    by (simp add: map_of_eq_None_iff)
  then have "obj_get (spread (configDefault this) p) k =
      (case map_of p k of Some v \<Rightarrow> v | None \<Rightarrow> JUndefined)"
    by (simp add: obj_get_spread[OF wf] split: option.splits)
  then show ?thesis by (simp add: obj_get_def split: option.splits)
qed

lemma obj_get_build_data_amount:
  "wf_object p \<Longrightarrow>
   obj_get (build_data pf this p) ''vnp_Amount'' = js_times pf (obj_get p ''vnp_Amount'') (JNum 100)"
  by (simp add: build_data_def Let_def obj_get_obj_set obj_get_spread_configDefault keys_configDefault)

lemma obj_get_build_data_tmnCode:
  "obj_get (build_data pf this p) ''vnp_TmnCode'' = of_optional (tmnCode (globalConfig this))"
  by (simp add: build_data_def Let_def obj_get_obj_set)

lemma obj_get_build_data_other:
  "wf_object p \<Longrightarrow> k \<notin> fst ` set (configDefault this) \<Longrightarrow>
   k \<notin> {''vnp_CreateDate'', ''vnp_Amount'', ''vnp_TmnCode''} \<Longrightarrow>
   obj_get (build_data pf this p) k = obj_get p k"
  by (simp add: build_data_def Let_def obj_get_obj_set obj_get_spread_configDefault)

lemma map_of_sort_entries: "wf_object xs \<Longrightarrow> map_of (sort_entries pf xs) = map_of xs"
  using wf_sort_entries[of xs pf] set_sort_entries[of pf xs]
  by (simp add: wf_object_def map_of_inject_set)

lemma obj_get_sort_entries: "wf_object xs \<Longrightarrow> obj_get (sort_entries pf xs) k = obj_get xs k"
  by (simp add: obj_get_def map_of_sort_entries)

lemma keys_kept_params: "fst ` set (kept_params es) \<subseteq> fst ` set es"
  by (force simp: kept_params_def)

lemma map_of_kept_params:
  "wf_object es \<Longrightarrow>
   map_of (kept_params es) k =
     (if truthy (obj_get es k) then Some (text_of (obj_get es k)) else None)"
proof (induction es)
  case Nil
  then show ?case by (simp add: kept_params_def obj_get_def)
next
  case (Cons e es)
  obtain k' v where e: "e = (k', v)" by (cases e)
  from Cons.prems have wf: "wf_object es" and nk: "k' \<notin> fst ` set es"
    by (auto simp: wf_object_def e)
  from nk keys_kept_params[of es] have "k' \<notin> fst ` set (kept_params es)" by blast
  then have none: "map_of (kept_params es) k' = None" by (simp add: map_of_eq_None_iff)
  have step: "kept_params ((k', v) # es) = (if truthy v then (k', text_of v) # kept_params es else kept_params es)"
    by (simp add: kept_params_def)
  show ?case
  proof (cases "k = k'")
    case True
    then show ?thesis using none by (simp add: step obj_get_def e)
  next
    case False
    then show ?thesis using Cons.IH[OF wf] by (simp add: step obj_get_def e)
  qed
qed

lemma kept_params_nonempty: "truthy (obj_get es k) \<Longrightarrow> kept_params es \<noteq> []"
proof -
  assume t: "truthy (obj_get es k)"
  then have "map_of es k = Some (obj_get es k)"
    by (cases "map_of es k") (auto simp: obj_get_def)
  then have "(k, obj_get es k) \<in> set es" by (rule map_of_SomeD)
  with t have "(k, obj_get es k) \<in> set (filter (\<lambda>e. truthy (snd e)) es)" by simp
  then show ?thesis unfolding kept_params_def by (force simp: filter_empty_conv)
qed

subsection \<open>The executors of the two methods\<close>

lemma validateGlobalConfig_NoneD:
  assumes "validateGlobalConfig this = None"
  obtains key tmn g where
    "secureSecret (globalConfig this) = Some key" "key \<noteq> []"
    "tmnCode (globalConfig this) = Some tmn" "tmn \<noteq> []"
    "paymentGateway (globalConfig this) = Some g" "g \<noteq> []"
  using assms
  by (auto simp: validateGlobalConfig_def falsy_field_def split: if_splits option.splits)

lemma valid_configD:
  assumes "valid_config pf this"
  obtains key tmn g u0 where
    "validateGlobalConfig this = None"
    "secureSecret (globalConfig this) = Some key" "key \<noteq> []"
    "tmnCode (globalConfig this) = Some tmn" "tmn \<noteq> []"
    "paymentGateway (globalConfig this) = Some g" "g \<noteq> []"
    "URL_parse pf g = Some u0" "searchParams u0 = []"
proof -
  from assms have v: "validateGlobalConfig this = None" by (simp add: valid_config_def)
  from v obtain key tmn g where c:
    "secureSecret (globalConfig this) = Some key" "key \<noteq> []"
    "tmnCode (globalConfig this) = Some tmn" "tmn \<noteq> []"
    "paymentGateway (globalConfig this) = Some g" "g \<noteq> []"
    by (rule validateGlobalConfig_NoneD)
  from assms c(5) obtain u0 where "URL_parse pf g = Some u0" "searchParams u0 = []"
    by (auto simp: valid_config_def String_of_def split: option.splits)
  with v c show thesis by (rule that)
qed

lemma build_redirectUrl_eq:
  assumes "paymentGateway (globalConfig this) = Some g" "URL_parse pf g = Some u0"
    and "secureSecret (globalConfig this) = Some key"
    and "kept_params (sort_entries pf data) \<noteq> []"
  shows "build_redirectUrl pf this data =
           Inr (searchParams_append (append_params u0 (kept_params (sort_entries pf data)))
                  ''vnp_SecureHash''
                  (digest_hex (createHmac pf CRYPTO_ALGORITHM key
                     (urlencoded (searchParams u0 @ kept_params (sort_entries pf data))))))"
  using assms search_append_params[OF assms(4), of u0]
  by (simp add: build_redirectUrl_def String_of_def build_forEach_eq)

lemma signed_fields_nonempty:
  assumes "tmnCode (globalConfig this) = Some tmn" "tmn \<noteq> []"
  shows "signed_fields pf this payload \<noteq> []"
proof -
  let ?data = "merged_fields pf this payload"
  have "obj_get ?data ''vnp_TmnCode'' = JStr tmn"
    using assms by (simp add: merged_fields_def obj_get_build_data_tmnCode of_optional_def)
  moreover have "wf_object ?data" by (simp add: merged_fields_def wf_build_data)
  ultimately have "truthy (obj_get (sort_entries pf ?data) ''vnp_TmnCode'')"
    using assms(2) by (simp add: obj_get_sort_entries)
  then show ?thesis unfolding signed_fields_def by (rule kept_params_nonempty)
qed

lemma built_URL_eq:
  assumes "paymentGateway (globalConfig this) = Some g" "URL_parse pf g = Some u0"
    and "secureSecret (globalConfig this) = Some key"
    and "tmnCode (globalConfig this) = Some tmn" "tmn \<noteq> []"
  shows "built_URL pf this payload =
           Inr (searchParams_append (append_params u0 (signed_fields pf this payload))
                  ''vnp_SecureHash''
                  (digest_hex (createHmac pf CRYPTO_ALGORITHM key
                     (urlencoded (searchParams u0 @ signed_fields pf this payload)))))"
  unfolding built_URL_def
  using build_redirectUrl_eq[OF assms(1-3), of "merged_fields pf this payload"]
    signed_fields_nonempty[OF assms(4,5), of pf payload]
  by (simp add: signed_fields_def)

lemma searchParams_searchParams_append:
  "searchParams (searchParams_append u k v) = searchParams u @ [(k, v)]"
  by (simp add: searchParams_append_def Let_def)

lemma URL_toString_searchParams_append:
  "URL_toString (searchParams_append u k v) =
     url_head u @ ''?'' @ urlencoded (searchParams u @ [(k, v)])
       @ (case url_fragment u of None \<Rightarrow> [] | Some f \<Rightarrow> CHR ''#'' # f)"
  by (simp add: URL_toString_def searchParams_append_def Let_def urlencoded_empty_iff)

lemma outcome_buildPaymentUrl:
  assumes "validateGlobalConfig this = None"
  shows "outcome (buildPaymentUrl pf this payload) =
           (case built_URL pf this payload of
              Inl e \<Rightarrow> Rejected e
            | Inr u \<Rightarrow> Resolved (URL_toString u))"
  using assms
  by (simp add: buildPaymentUrl_def Let_def built_URL_def merged_fields_def split: sum.splits)

lemma verify_signed_eq:
  assumes "paymentGateway (globalConfig this) = Some g" "URL_parse pf g = Some u0"
    and "secureSecret (globalConfig this) = Some key"
  shows "verify_signed pf this q =
           Inr (digest_hex (createHmac pf CRYPTO_ALGORITHM key
                  (drop 1 (URL_search (append_params u0 (kept_params (sort_entries pf q)))))))"
  using assms by (simp add: verify_signed_def verify_forEach_eq)

lemma outcome_verifyReturnUrl:
  assumes "validateGlobalConfig this = None"
    and "toString (obj_get (strip_signature q) ''vnp_ResponseCode'') = Inr code"
    and "verify_signed pf this (strip_signature q) = Inr s"
  shows "outcome (verifyReturnUrl pf this q) =
           Resolved (spread (strip_signature q)
             (if obj_get q ''vnp_SecureHash'' = JStr s
              then [(''isSuccess'', JBool (obj_get (strip_signature q) ''vnp_ResponseCode'' = JStr ''00'')),
                    (''message'', JStr (getResponseByStatusCode code (vnp_Locale this)))]
              else [(''isSuccess'', JBool False), (''message'', JStr ''Wrong checksum'')]))"
  using assms
  by (simp add: verifyReturnUrl_def Let_def ReturnQueryFromVNPayDTO_def VerifyReturnUrlDTO_def
      obj_assign_def obj_set_def)

lemma obj_get_strip_signature:
  "k \<noteq> ''vnp_SecureHash'' \<Longrightarrow> k \<noteq> ''vnp_SecureHashType'' \<Longrightarrow>
   obj_get (strip_signature q) k = obj_get q k"
  by (simp add: strip_signature_def obj_get_obj_delete)

lemma obj_get_spread_results:
  "obj_get (spread a [(''isSuccess'', x), (''message'', y)]) ''isSuccess'' = x"
  "obj_get (spread a [(''isSuccess'', x), (''message'', y)]) ''message'' = y"
  by (simp_all add: obj_get_spread wf_object_def)

subsection \<open>The example, and the signed fields\<close>

lemma valid_config_example: "valid_config example_platform example_vnpay"
  by (simp add: valid_config_def validateGlobalConfig_def example_vnpay_def falsy_field_def
      example_platform_def String_of_def)

lemma validateGlobalConfig_example: "validateGlobalConfig example_vnpay = None"
  using valid_config_example by (simp add: valid_config_def)

lemma sha512_digest_example: "sha512_digest example_platform"
  by (simp add: sha512_digest_def example_platform_def example_hmac_def)

lemma verify_signed_length:
  assumes "sha512_digest pf" "verify_signed pf this q = Inr s"
  shows "length s = 128"
  using assms
  by (auto simp: verify_signed_def sha512_digest_def length_digest_hex
      split: option.splits sum.splits)

lemma wf_merged_fields: "wf_object (merged_fields pf this payload)"
  by (simp add: merged_fields_def wf_build_data)

lemma map_of_signed_fields:
  "map_of (signed_fields pf this payload) k =
     (if truthy (obj_get (merged_fields pf this payload) k)
      then Some (text_of (obj_get (merged_fields pf this payload) k)) else None)"
  unfolding signed_fields_def
  using map_of_kept_params[OF wf_sort_entries[OF wf_merged_fields], of pf pf this payload k]
  by (simp add: obj_get_sort_entries[OF wf_merged_fields])

lemma merged_fields_amount:
  "wf_object payload \<Longrightarrow>
   obj_get (merged_fields pf this payload) ''vnp_Amount'' =
     js_times pf (obj_get payload ''vnp_Amount'') (JNum 100)"
  by (simp add: merged_fields_def obj_get_build_data_amount wf_default_returnUrl
      obj_get_default_returnUrl)

lemma built_URL_valid:
  assumes "valid_config pf this"
  obtains key u0 where
    "secureSecret (globalConfig this) = Some key"
    "URL_parse pf (String_of (paymentGateway (globalConfig this))) = Some u0"
    "built_URL pf this payload =
       Inr (searchParams_append (append_params u0 (signed_fields pf this payload))
              ''vnp_SecureHash''
              (digest_hex (createHmac pf CRYPTO_ALGORITHM key
                 (urlencoded (signed_fields pf this payload)))))"
    "searchParams u0 = []"
    "signed_fields pf this payload \<noteq> []"
proof -
  from assms obtain key tmn g u0 where c:
    "validateGlobalConfig this = None"
    "secureSecret (globalConfig this) = Some key" "key \<noteq> []"
    "tmnCode (globalConfig this) = Some tmn" "tmn \<noteq> []"
    "paymentGateway (globalConfig this) = Some g" "g \<noteq> []"
    "URL_parse pf g = Some u0" "searchParams u0 = []"
    by (rule valid_configD)
  show thesis
  proof (rule that[of key u0])
    show "secureSecret (globalConfig this) = Some key" by (rule c(2))
    show "URL_parse pf (String_of (paymentGateway (globalConfig this))) = Some u0"
      using c(6,8) by (simp add: String_of_def)
    show "built_URL pf this payload =
       Inr (searchParams_append (append_params u0 (signed_fields pf this payload))
              ''vnp_SecureHash''
              (digest_hex (createHmac pf CRYPTO_ALGORITHM key
                 (urlencoded (signed_fields pf this payload)))))"
      using built_URL_eq[OF c(6) c(8) c(2) c(4) c(5), of payload] c(9) by simp
    show "searchParams u0 = []" by (rule c(9))
    show "signed_fields pf this payload \<noteq> []" by (rule signed_fields_nonempty[OF c(4,5)])
  qed
qed

lemma outcome_buildPaymentUrl_Inr:
  assumes "valid_config pf this" "built_URL pf this payload = Inr u"
  shows "outcome (buildPaymentUrl pf this payload) = Resolved (URL_toString u)"
  using assms outcome_buildPaymentUrl[of this pf payload] by (simp add: valid_config_def)

lemma wf_example_payload: "wf_object example_payload"
  by (simp add: wf_object_def example_payload_def)

subsection \<open>Byte-wise comparison is consistent\<close>

lemma compare_bytes_Cons_le:
  "(compare_bytes (x # xs) (y # ys) \<le> 0) =
     ((of_char x :: nat) < of_char y \<or> ((of_char x :: nat) = of_char y \<and> compare_bytes xs ys \<le> 0))"
  by auto

lemma compare_bytes_total: "compare_bytes a b \<le> 0 \<or> compare_bytes b a \<le> 0"
proof (induction a arbitrary: b)
  case Nil
  then show ?case by (cases b) simp_all
next
  case (Cons x xs)
  show ?case
  proof (cases b)
    case Nil
    then show ?thesis by simp
  next
    case (Cons y ys)
    from Cons.IH[of ys] show ?thesis
      unfolding Cons compare_bytes_Cons_le by linarith
  qed
qed

lemma compare_bytes_trans:
  "compare_bytes a b \<le> 0 \<Longrightarrow> compare_bytes b c \<le> 0 \<Longrightarrow> compare_bytes a c \<le> 0"
proof (induction a arbitrary: b c)
  case Nil
  then show ?case by (cases c) simp_all
next
  case (Cons x xs)
  from Cons.prems(1) obtain y ys where b: "b = y # ys" by (cases b) simp_all
  from Cons.prems(2) b obtain z zs where c: "c = z # zs" by (cases c) simp_all
  from Cons.prems have p1: "(of_char x :: nat) < of_char y \<or> ((of_char x :: nat) = of_char y \<and> compare_bytes xs ys \<le> 0)"
    and p2: "(of_char y :: nat) < of_char z \<or> ((of_char y :: nat) = of_char z \<and> compare_bytes ys zs \<le> 0)"
    unfolding b c compare_bytes_Cons_le by blast+
  show ?case
  proof (cases "(of_char x :: nat) < of_char z")
    case True
    then show ?thesis unfolding c compare_bytes_Cons_le by blast
  next
    case False
    with p1 p2 have e: "(of_char x :: nat) = of_char y" "(of_char y :: nat) = of_char z"
      and t: "compare_bytes xs ys \<le> 0" "compare_bytes ys zs \<le> 0"
      by linarith+
    from Cons.IH[OF t] e show ?thesis unfolding c compare_bytes_Cons_le by simp
  qed
qed

lemma consistent_compare_example: "consistent_compare example_platform"
proof -
  have "localeCompare example_platform = compare_bytes" by (simp add: example_platform_def)
  then show ?thesis
    unfolding consistent_compare_def
    using compare_bytes_total compare_bytes_trans by metis
qed

subsection \<open>Order and keys of the signed fields\<close>

lemma keys_kept_params_eq:
  "map fst (kept_params es) = map fst (filter (\<lambda>e. truthy (snd e)) es)"
  by (simp add: kept_params_def comp_def)

lemma sorted_keys_kept_params:
  assumes "sorted_wrt (\<lambda>a b. localeCompare pf (fst a) (fst b) \<le> 0) es"
  shows "sorted_wrt (\<lambda>a b. localeCompare pf a b \<le> 0) (map fst (kept_params es))"
proof -
  have "sorted_wrt (\<lambda>a b. localeCompare pf (fst a) (fst b) \<le> 0) (filter (\<lambda>e. truthy (snd e)) es)"
    using assms by (rule sorted_wrt_filter)
  then show ?thesis by (simp add: keys_kept_params_eq sorted_wrt_map)
qed

lemma sorted_signed_fields:
  "consistent_compare pf \<Longrightarrow>
   sorted_wrt (\<lambda>a b. localeCompare pf a b \<le> 0) (map fst (signed_fields pf this payload))"
  unfolding signed_fields_def by (intro sorted_keys_kept_params sorted_sort_entries)

lemma verify_signed_cong:
  "kept_params (sort_entries pf q) = kept_params (sort_entries pf q') \<Longrightarrow>
   verify_signed pf this q = verify_signed pf this q'"
  by (simp add: verify_signed_def verify_forEach_eq split: option.splits)

lemma kept_params_sort_entries:
  "consistent_compare pf \<Longrightarrow>
   kept_params (sort_entries pf es) =
     map (\<lambda>e. (fst e, text_of (snd e))) (sort_entries pf (filter (\<lambda>e. truthy (snd e)) es))"
  by (simp add: kept_params_def filter_sort_entries)




subsection \<open>The parameters of a built URL as a return query\<close>














subsection \<open>The text signed for a query with one more field\<close>






subsection \<open>The stand-in hash tells texts of different length apart\<close>




subsection \<open>A response code forced onto the parameters of a built URL\<close>



section \<open>The claims\<close>

subsection \<open>C1: the signature of the built URL, and what verifies\<close>




subsection \<open>C7: the response code catalog\<close>

lemma distinct_responseMap: "distinct (map fst responseMap)"
  by (simp add: responseMap_def)

lemma default_entry: "map_of responseMap ''default'' =
   Some \<lparr>vn = ''Giao d'' @ [CHR 0xE1, CHR 0xBB, CHR 0x8B] @ ''ch th'' @ [CHR 0xE1, CHR 0xBA, CHR 0xA5] @ ''t b'' @ [CHR 0xE1, CHR 0xBA, CHR 0xA1] @ ''i'', en = ''Failure''\<rparr>"
  by (simp add: responseMap_def)

text \<open>
  Claim C7. \<open>getResponseByStatusCode\<close> returns the message of the catalog's entry for the
  response code, by exact match, and for a code that is not in the catalog the message of
  the entry \<open>default\<close>, in the locale asked for; code 00 gives the Vietnamese and the
  English text of the table, and code 999 in English gives \<open>Failure\<close>.
\<close>

theorem getResponseByStatusCode_catalog:
  "(\<forall>entry \<in> set responseMap.
      getResponseByStatusCode (fst entry) locale = select_locale (snd entry) locale)
   \<and> (code \<notin> fst ` set responseMap \<longrightarrow>
        getResponseByStatusCode code locale =
          select_locale
            \<lparr>vn = ''Giao d'' @ [CHR 0xE1, CHR 0xBB, CHR 0x8B] @ ''ch th''
                   @ [CHR 0xE1, CHR 0xBA, CHR 0xA5] @ ''t b'' @ [CHR 0xE1, CHR 0xBA, CHR 0xA1] @ ''i'',
             en = ''Failure''\<rparr> locale)
   \<and> getResponseByStatusCode ''00'' VN =
        ''Giao d'' @ [CHR 0xE1, CHR 0xBB, CHR 0x8B] @ ''ch th'' @ [CHR 0xC3, CHR 0xA0] @ ''nh c''
          @ [CHR 0xC3, CHR 0xB4] @ ''ng''
   \<and> getResponseByStatusCode ''00'' EN = ''Approved''
   \<and> getResponseByStatusCode ''999'' EN = ''Failure''"
proof (intro conjI ballI impI)
  fix entry assume "entry \<in> set responseMap"
  then have "(fst entry, snd entry) \<in> set responseMap" by simp
  then have "map_of responseMap (fst entry) = Some (snd entry)"
    using distinct_responseMap by (simp only: map_of_eq_Some_iff)
  then show "getResponseByStatusCode (fst entry) locale = select_locale (snd entry) locale"
    by (simp add: getResponseByStatusCode_def)
next
  assume "code \<notin> fst ` set responseMap"
  then have "map_of responseMap code = None" by (simp add: map_of_eq_None_iff)
  then show "getResponseByStatusCode code locale =
          select_locale
            \<lparr>vn = ''Giao d'' @ [CHR 0xE1, CHR 0xBB, CHR 0x8B] @ ''ch th''
                   @ [CHR 0xE1, CHR 0xBA, CHR 0xA5] @ ''t b'' @ [CHR 0xE1, CHR 0xBA, CHR 0xA1] @ ''i'',
             en = ''Failure''\<rparr> locale"
    by (simp add: getResponseByStatusCode_def default_entry)
next
  show "getResponseByStatusCode ''00'' VN =
        ''Giao d'' @ [CHR 0xE1, CHR 0xBB, CHR 0x8B] @ ''ch th'' @ [CHR 0xC3, CHR 0xA0] @ ''nh c''
          @ [CHR 0xC3, CHR 0xB4] @ ''ng''"
    by (simp add: getResponseByStatusCode_def responseMap_def)
next
  show "getResponseByStatusCode ''00'' EN = ''Approved''"
    by (simp add: getResponseByStatusCode_def responseMap_def)
next
  show "getResponseByStatusCode ''999'' EN = ''Failure''"
    by (simp add: getResponseByStatusCode_def responseMap_def)
qed

text \<open>The catalog's entry 75 and the unknown code 42, in English.\<close>

theorem getResponseByStatusCode_catalog_witness:
  "(''75'', \<lparr>vn = ''Ng'' @ [CHR 0xC3, CHR 0xA2] @ ''n h'' @ [CHR 0xC3, CHR 0xA0] @ ''ng thanh to''
       @ [CHR 0xC3, CHR 0xA1] @ ''n '' @ [CHR 0xC4, CHR 0x91] @ ''ang b'' @ [CHR 0xE1, CHR 0xBA, CHR 0xA3]
       @ ''o tr'' @ [CHR 0xC3, CHR 0xAC],
     en = ''Banking system is under maintenance''\<rparr>) \<in> set responseMap
   \<and> getResponseByStatusCode ''75'' EN = ''Banking system is under maintenance''
   \<and> ''42'' \<notin> fst ` set responseMap
   \<and> getResponseByStatusCode ''42'' EN = ''Failure''"
proof -
  have m: "(''75'', \<lparr>vn = ''Ng'' @ [CHR 0xC3, CHR 0xA2] @ ''n h'' @ [CHR 0xC3, CHR 0xA0] @ ''ng thanh to''
       @ [CHR 0xC3, CHR 0xA1] @ ''n '' @ [CHR 0xC4, CHR 0x91] @ ''ang b'' @ [CHR 0xE1, CHR 0xBA, CHR 0xA3]
       @ ''o tr'' @ [CHR 0xC3, CHR 0xAC],
     en = ''Banking system is under maintenance''\<rparr>) \<in> set responseMap"
    by (simp add: responseMap_def)
  have n: "''42'' \<notin> fst ` set responseMap" by (simp add: responseMap_def)
  from getResponseByStatusCode_catalog[of EN "''42''"] m n show ?thesis by force
qed

subsection \<open>C5: a configuration with a missing field\<close>

text \<open>
  Claim C5. When the secret, the merchant code or the gateway of the configuration is
  missing, \<open>buildPaymentUrl\<close> rejects with the error that names the first missing one, in
  the order secret, merchant code, gateway. The whole call is given: the promise is
  rejected, the payload and the instance are as they were, and nothing of the platform
  (no keyed hash) takes part in the result.
\<close>

theorem buildPaymentUrl_missing_config:
  "(falsy_field (secureSecret (globalConfig this)) \<longrightarrow>
      buildPaymentUrl pf this payload =
        \<lparr>outcome = Rejected (Error ''Missing secure secret''), argument = payload, receiver = this\<rparr>)
   \<and> (\<not> falsy_field (secureSecret (globalConfig this)) \<and> falsy_field (tmnCode (globalConfig this)) \<longrightarrow>
      buildPaymentUrl pf this payload =
        \<lparr>outcome = Rejected (Error ''Missing merchant code''), argument = payload, receiver = this\<rparr>)
   \<and> (\<not> falsy_field (secureSecret (globalConfig this)) \<and> \<not> falsy_field (tmnCode (globalConfig this))
        \<and> falsy_field (paymentGateway (globalConfig this)) \<longrightarrow>
      buildPaymentUrl pf this payload =
        \<lparr>outcome = Rejected (Error ''Missing payment gateway''), argument = payload, receiver = this\<rparr>)"
  by (simp add: buildPaymentUrl_def validateGlobalConfig_def)

text \<open>Three configurations, each with a different first missing field.\<close>

theorem buildPaymentUrl_missing_config_witness:
  "buildPaymentUrl example_platform (example_vnpay_with None (Some []) None) example_payload =
     \<lparr>outcome = Rejected (Error ''Missing secure secret''), argument = example_payload,
      receiver = example_vnpay_with None (Some []) None\<rparr>
   \<and> outcome (buildPaymentUrl example_platform
         (example_vnpay_with (Some ''SERCRET'') (Some []) None) example_payload) =
       Rejected (Error ''Missing merchant code'')
   \<and> outcome (buildPaymentUrl example_platform
         (example_vnpay_with (Some ''SERCRET'') (Some ''TMNCODE'') None) example_payload) =
       Rejected (Error ''Missing payment gateway'')"
  using
    buildPaymentUrl_missing_config
      [of "example_vnpay_with None (Some []) None" example_platform example_payload]
    buildPaymentUrl_missing_config
      [of "example_vnpay_with (Some ''SERCRET'') (Some []) None" example_platform example_payload]
    buildPaymentUrl_missing_config
      [of "example_vnpay_with (Some ''SERCRET'') (Some ''TMNCODE'') None" example_platform
          example_payload]
  by (simp add: falsy_field_def example_vnpay_with_def)

subsection \<open>C10: a return query without a response code\<close>

text \<open>
  Claim C10. With a configuration that passes \<open>validateGlobalConfig\<close>, a return query in
  which \<open>vnp_ResponseCode\<close> is absent or undefined makes \<open>verifyReturnUrl\<close> reject with a
  TypeError: \<open>toString\<close> is called on undefined before any result object exists.
\<close>

theorem verifyReturnUrl_missing_response_code:
  assumes "validateGlobalConfig this = None"
    and "map_of vnpayReturnQuery ''vnp_ResponseCode'' = None
         \<or> map_of vnpayReturnQuery ''vnp_ResponseCode'' = Some JUndefined"
  shows "outcome (verifyReturnUrl pf this vnpayReturnQuery) = Rejected TypeError"
proof -
  from assms(2) have "obj_get vnpayReturnQuery ''vnp_ResponseCode'' = JUndefined"
    by (auto simp: obj_get_def)
  then have "obj_get (strip_signature vnpayReturnQuery) ''vnp_ResponseCode'' = JUndefined"
    by (simp add: obj_get_strip_signature)
  with assms(1) show ?thesis
    by (simp add: verifyReturnUrl_def Let_def ReturnQueryFromVNPayDTO_def)
qed

text \<open>A query with an amount and a signature only.\<close>

theorem verifyReturnUrl_missing_response_code_witness:
  "validateGlobalConfig example_vnpay = None
   \<and> map_of [(''vnp_Amount'', JStr ''10000000''), (''vnp_SecureHash'', JStr ''abc'')] ''vnp_ResponseCode'' = None
   \<and> outcome (verifyReturnUrl example_platform example_vnpay
        [(''vnp_Amount'', JStr ''10000000''), (''vnp_SecureHash'', JStr ''abc'')]) = Rejected TypeError"
proof -
  have v: "validateGlobalConfig example_vnpay = None"
    by (simp add: validateGlobalConfig_def example_vnpay_def falsy_field_def)
  have m: "map_of [(''vnp_Amount'', JStr ''10000000''), (''vnp_SecureHash'', JStr ''abc'')] ''vnp_ResponseCode'' = None"
    by simp
  from verifyReturnUrl_missing_response_code[OF v disjI1[OF m], of example_platform] v m
  show ?thesis by simp
qed

subsection \<open>C3: a signature that does not match\<close>

text \<open>
  Claim C3 as stated says that every return query whose signature differs from the
  recomputed one resolves with \<open>isSuccess = false\<close> and the message \<open>Wrong checksum\<close>.
  A query without a response code is rejected before the signature is looked at, also
  when its signature is wrong.
\<close>

theorem verifyReturnUrl_wrong_checksum_counterexample:
  "valid_config example_platform example_vnpay
   \<and> obj_get [(''vnp_Amount'', JStr ''10000000''), (''vnp_SecureHash'', JStr ''abc'')] ''vnp_SecureHash''
       = JStr ''abc''
   \<and> verify_signed example_platform example_vnpay
        (strip_signature [(''vnp_Amount'', JStr ''10000000''), (''vnp_SecureHash'', JStr ''abc'')])
       \<noteq> Inr ''abc''
   \<and> outcome (verifyReturnUrl example_platform example_vnpay
        [(''vnp_Amount'', JStr ''10000000''), (''vnp_SecureHash'', JStr ''abc'')]) = Rejected TypeError"
proof -
  let ?q = "[(''vnp_Amount'', JStr ''10000000''), (''vnp_SecureHash'', JStr ''abc'')]"
  have a: "obj_get ?q ''vnp_SecureHash'' = JStr ''abc''" by (simp add: obj_get_def)
  have b: "verify_signed example_platform example_vnpay (strip_signature ?q) \<noteq> Inr ''abc''"
    using verify_signed_length[OF sha512_digest_example, of example_vnpay "strip_signature ?q" "''abc''"]
    by auto
  have c: "outcome (verifyReturnUrl example_platform example_vnpay ?q) = Rejected TypeError"
    using validateGlobalConfig_example
    by (simp add: verifyReturnUrl_def Let_def ReturnQueryFromVNPayDTO_def strip_signature_def
        obj_delete_def obj_get_def)
  from valid_config_example a b c show ?thesis by simp
qed

text \<open>
  Claim C3, amended. For a valid configuration and a return query that carries a response
  code (neither undefined nor null) and whose \<open>vnp_SecureHash\<close> is not the signature
  recomputed over the remaining fields, \<open>verifyReturnUrl\<close> resolves, and the result has
  \<open>isSuccess = false\<close> and the message \<open>Wrong checksum\<close>, whatever the response code is.
\<close>

theorem verifyReturnUrl_wrong_checksum:
  assumes "valid_config pf this"
    and "obj_get vnpayReturnQuery ''vnp_ResponseCode'' \<noteq> JUndefined"
    and "obj_get vnpayReturnQuery ''vnp_ResponseCode'' \<noteq> JNull"
    and "\<forall>s. verify_signed pf this (strip_signature vnpayReturnQuery) = Inr s
           \<longrightarrow> obj_get vnpayReturnQuery ''vnp_SecureHash'' \<noteq> JStr s"
  shows "\<exists>result. outcome (verifyReturnUrl pf this vnpayReturnQuery) = Resolved result
           \<and> obj_get result ''isSuccess'' = JBool False
           \<and> obj_get result ''message'' = JStr ''Wrong checksum''"
proof -
  from assms(1) obtain key g u0 where c:
    "validateGlobalConfig this = None"
    "secureSecret (globalConfig this) = Some key"
    "paymentGateway (globalConfig this) = Some g"
    "URL_parse pf g = Some u0"
    by (rule valid_configD)
  let ?q = "strip_signature vnpayReturnQuery"
  have rc: "obj_get ?q ''vnp_ResponseCode'' = obj_get vnpayReturnQuery ''vnp_ResponseCode''"
    by (simp add: obj_get_strip_signature)
  from assms(2,3) obtain code where code: "toString (obj_get ?q ''vnp_ResponseCode'') = Inr code"
    unfolding rc by (cases "obj_get vnpayReturnQuery ''vnp_ResponseCode''") auto
  from verify_signed_eq[OF c(3,4,2)] obtain s where s: "verify_signed pf this ?q = Inr s"
    by blast
  with assms(4) have ne: "obj_get vnpayReturnQuery ''vnp_SecureHash'' \<noteq> JStr s" by blast
  have "outcome (verifyReturnUrl pf this vnpayReturnQuery) =
          Resolved (spread ?q [(''isSuccess'', JBool False), (''message'', JStr ''Wrong checksum'')])"
    using outcome_verifyReturnUrl[OF c(1) code s] ne by simp
  then show ?thesis by (simp add: obj_get_spread_results)
qed

text \<open>A query with response code 00 and a signature of three characters.\<close>

theorem verifyReturnUrl_wrong_checksum_witness:
  "\<exists>result.
     outcome (verifyReturnUrl example_platform example_vnpay
       [(''vnp_Amount'', JStr ''10000000''), (''vnp_ResponseCode'', JStr ''00''),
        (''vnp_SecureHash'', JStr ''abc'')]) = Resolved result
     \<and> obj_get result ''isSuccess'' = JBool False
     \<and> obj_get result ''message'' = JStr ''Wrong checksum''"
proof -
  let ?q = "[(''vnp_Amount'', JStr ''10000000''), (''vnp_ResponseCode'', JStr ''00''),
        (''vnp_SecureHash'', JStr ''abc'')]"
  have 1: "obj_get ?q ''vnp_ResponseCode'' \<noteq> JUndefined" by (simp add: obj_get_def)
  have 2: "obj_get ?q ''vnp_ResponseCode'' \<noteq> JNull" by (simp add: obj_get_def)
  have 3: "\<forall>s. verify_signed example_platform example_vnpay (strip_signature ?q) = Inr s
           \<longrightarrow> obj_get ?q ''vnp_SecureHash'' \<noteq> JStr s"
  proof (intro allI impI)
    fix s assume "verify_signed example_platform example_vnpay (strip_signature ?q) = Inr s"
    then have "length s = 128" by (rule verify_signed_length[OF sha512_digest_example])
    then show "obj_get ?q ''vnp_SecureHash'' \<noteq> JStr s" by (auto simp: obj_get_def)
  qed
  from verifyReturnUrl_wrong_checksum[OF valid_config_example 1 2 3] show ?thesis .
qed

subsection \<open>C9: what a call changes\<close>

text \<open>
  Claim C9 as stated says that the caller's payload is unchanged after
  \<open>buildPaymentUrl\<close>. A payload without a return URL has the one of the configuration
  written into it.
\<close>

theorem buildPaymentUrl_changes_payload_counterexample:
  "argument (buildPaymentUrl example_platform example_vnpay example_payload_incomplete)
     \<noteq> example_payload_incomplete
   \<and> obj_get example_payload_incomplete ''vnp_ReturnUrl'' = JUndefined
   \<and> obj_get (argument (buildPaymentUrl example_platform example_vnpay example_payload_incomplete))
        ''vnp_ReturnUrl'' = JStr ''http://localhost:8888/order/vnpay_return''"
  using validateGlobalConfig_example
  by (simp add: buildPaymentUrl_def Let_def default_returnUrl_def example_payload_incomplete_def
      obj_get_def obj_set_def of_optional_def example_vnpay_def)

text \<open>
  Claim C9, amended. Neither call changes the instance, and \<open>verifyReturnUrl\<close> leaves the
  caller's query as it was. \<open>buildPaymentUrl\<close> leaves the payload as it was when the
  payload's return URL is truthy or the configuration is rejected; otherwise it assigns
  the return URL of the configuration to the payload's \<open>vnp_ReturnUrl\<close>.
\<close>

theorem calls_effects:
  "receiver (buildPaymentUrl pf this payload) = this
   \<and> receiver (verifyReturnUrl pf this vnpayReturnQuery) = this
   \<and> argument (verifyReturnUrl pf this vnpayReturnQuery) = vnpayReturnQuery
   \<and> (truthy (obj_get payload ''vnp_ReturnUrl'') \<or> validateGlobalConfig this \<noteq> None \<longrightarrow>
        argument (buildPaymentUrl pf this payload) = payload)
   \<and> (\<not> truthy (obj_get payload ''vnp_ReturnUrl'') \<and> validateGlobalConfig this = None \<longrightarrow>
        argument (buildPaymentUrl pf this payload) =
          obj_set payload ''vnp_ReturnUrl'' (of_optional (returnUrl (globalConfig this))))"
  by (auto simp: buildPaymentUrl_def verifyReturnUrl_def Let_def default_returnUrl_def
      split: option.splits)

text \<open>The example payload, and the one without a return URL.\<close>

theorem calls_effects_witness:
  "argument (buildPaymentUrl example_platform example_vnpay example_payload) = example_payload
   \<and> receiver (buildPaymentUrl example_platform example_vnpay example_payload) = example_vnpay
   \<and> argument (buildPaymentUrl example_platform example_vnpay example_payload_incomplete) =
       example_payload_incomplete @ [(''vnp_ReturnUrl'', JStr ''http://localhost:8888/order/vnpay_return'')]"
proof -
  have t: "truthy (obj_get example_payload ''vnp_ReturnUrl'')"
    by (simp add: example_payload_def obj_get_def)
  have f: "\<not> truthy (obj_get example_payload_incomplete ''vnp_ReturnUrl'')"
    by (simp add: example_payload_incomplete_def obj_get_def)
  have s: "obj_set example_payload_incomplete ''vnp_ReturnUrl''
             (of_optional (returnUrl (globalConfig example_vnpay))) =
           example_payload_incomplete @ [(''vnp_ReturnUrl'', JStr ''http://localhost:8888/order/vnpay_return'')]"
    by (simp add: example_payload_incomplete_def obj_set_def of_optional_def example_vnpay_def)
  from calls_effects[of example_platform example_vnpay example_payload]
    calls_effects[of example_platform example_vnpay example_payload_incomplete]
    t f s validateGlobalConfig_example
  show ?thesis by simp
qed

subsection \<open>C6: the amount\<close>

text \<open>
  Claim C6. For a valid configuration and a payload whose amount is the nonzero integer
  \<open>n\<close> (with \<open>100 * n\<close> a safe integer), the URL that \<open>buildPaymentUrl\<close> resolves with has
  the parameter \<open>vnp_Amount\<close> with the decimal text of \<open>100 * n\<close>.
\<close>

theorem buildPaymentUrl_amount:
  assumes "valid_config pf this" and "wf_object payload"
    and "obj_get payload ''vnp_Amount'' = JNum n" and "n \<noteq> 0" and "safe_integer (n * 100)"
  shows "\<exists>u. built_URL pf this payload = Inr u
           \<and> outcome (buildPaymentUrl pf this payload) = Resolved (URL_toString u)
           \<and> map_of (searchParams u) ''vnp_Amount'' = Some (Number_toString (n * 100))"
proof -
  from assms(1) obtain key u0 where b:
    "built_URL pf this payload =
       Inr (searchParams_append (append_params u0 (signed_fields pf this payload))
              ''vnp_SecureHash''
              (digest_hex (createHmac pf CRYPTO_ALGORITHM key
                 (urlencoded (signed_fields pf this payload)))))"
    and u0: "searchParams u0 = []"
    by (rule built_URL_valid)
  have "obj_get (merged_fields pf this payload) ''vnp_Amount'' = JNum (n * 100)"
    using assms(2,3) by (simp add: merged_fields_amount js_times_def)
  then have "map_of (signed_fields pf this payload) ''vnp_Amount'' = Some (Number_toString (n * 100))"
    using assms(4) by (simp add: map_of_signed_fields text_of_def)
  then have "map_of (searchParams (searchParams_append (append_params u0 (signed_fields pf this payload))
              ''vnp_SecureHash''
              (digest_hex (createHmac pf CRYPTO_ALGORITHM key
                 (urlencoded (signed_fields pf this payload)))))) ''vnp_Amount''
             = Some (Number_toString (n * 100))"
    using u0 by (simp add: searchParams_searchParams_append searchParams_append_params map_add_def)
  with b outcome_buildPaymentUrl_Inr[OF assms(1) b] show ?thesis by blast
qed

text \<open>The example payload: the amount 100000 is transmitted as 10000000.\<close>

theorem buildPaymentUrl_amount_witness:
  "\<exists>u. built_URL example_platform example_vnpay example_payload = Inr u
      \<and> outcome (buildPaymentUrl example_platform example_vnpay example_payload)
          = Resolved (URL_toString u)
      \<and> map_of (searchParams u) ''vnp_Amount'' = Some ''10000000''"
proof -
  have a: "obj_get example_payload ''vnp_Amount'' = JNum 100000"
    by (simp add: example_payload_def obj_get_def)
  have n: "(100000::int) \<noteq> 0" by simp
  have s: "safe_integer (100000 * 100)" by (simp add: safe_integer_def)
  have d: "Number_toString (100000 * 100) = ''10000000''"
    by (simp add: Number_toString_def decimal.simps)
  from buildPaymentUrl_amount[OF valid_config_example wf_example_payload a n s] d
  show ?thesis by simp
qed

subsection \<open>C8: the shape of the built URL\<close>

text \<open>
  Claim C8. For a valid configuration (with a consistent key comparison and a 64-byte
  digest), the URL that \<open>buildPaymentUrl\<close> resolves with has its parameters sorted
  ascending by key, in the order of the comparison the code sorts with, followed by
  \<open>vnp_SecureHash\<close> as the last parameter, whose value has 128 characters, all of them
  lowercase hexadecimal digits.
\<close>

theorem buildPaymentUrl_sorted_and_signed:
  assumes "valid_config pf this" and "consistent_compare pf" and "sha512_digest pf"
  shows "\<exists>u ps h. built_URL pf this payload = Inr u
           \<and> outcome (buildPaymentUrl pf this payload) = Resolved (URL_toString u)
           \<and> searchParams u = ps @ [(''vnp_SecureHash'', h)]
           \<and> sorted_wrt (\<lambda>key1 key2. localeCompare pf key1 key2 \<le> 0) (map fst ps)
           \<and> length h = 128
           \<and> set h \<subseteq> set ''0123456789abcdef''"
proof -
  from assms(1) obtain key u0 where b:
    "built_URL pf this payload =
       Inr (searchParams_append (append_params u0 (signed_fields pf this payload))
              ''vnp_SecureHash''
              (digest_hex (createHmac pf CRYPTO_ALGORITHM key
                 (urlencoded (signed_fields pf this payload)))))"
    and u0: "searchParams u0 = []"
    by (rule built_URL_valid)
  let ?ps = "signed_fields pf this payload"
  let ?h = "digest_hex (createHmac pf CRYPTO_ALGORITHM key (urlencoded ?ps))"
  let ?u = "searchParams_append (append_params u0 ?ps) ''vnp_SecureHash'' ?h"
  have 1: "searchParams ?u = ?ps @ [(''vnp_SecureHash'', ?h)]"
    using u0 by (simp add: searchParams_searchParams_append searchParams_append_params)
  have 2: "sorted_wrt (\<lambda>key1 key2. localeCompare pf key1 key2 \<le> 0) (map fst ?ps)"
    using assms(2) by (rule sorted_signed_fields)
  have 3: "length ?h = 128"
    using assms(3) by (simp add: length_digest_hex sha512_digest_def)
  have 4: "set ?h \<subseteq> set ''0123456789abcdef''" by (rule digest_hex_chars)
  from b outcome_buildPaymentUrl_Inr[OF assms(1) b] 1 2 3 4 show ?thesis by blast
qed

text \<open>The example instance and payload, under byte-wise comparison of keys.\<close>

theorem buildPaymentUrl_sorted_and_signed_witness:
  "\<exists>u ps h. built_URL example_platform example_vnpay example_payload = Inr u
      \<and> outcome (buildPaymentUrl example_platform example_vnpay example_payload)
           = Resolved (URL_toString u)
      \<and> searchParams u = ps @ [(''vnp_SecureHash'', h)]
      \<and> sorted_wrt (\<lambda>key1 key2. compare_bytes key1 key2 \<le> 0) (map fst ps)
      \<and> length h = 128
      \<and> set h \<subseteq> set ''0123456789abcdef''"
  using buildPaymentUrl_sorted_and_signed[OF valid_config_example consistent_compare_example
      sha512_digest_example, of example_payload]
  by (simp add: example_platform_def)

subsection \<open>C4: validation and the returned URL\<close>

text \<open>
  Claim C4 says that a violated field constraint makes the call fail and that no URL is
  returned then. The code does otherwise: with a valid configuration the promise is
  resolved with the URL by the executor, and the rejection that the validation's callback
  asks for afterwards finds the promise settled. So the call resolves with a URL also
  when the validation reports violations.
\<close>

theorem buildPaymentUrl_resolves_despite_validation:
  assumes "valid_config pf this"
    and "validate pf (merged_fields pf this payload) \<noteq> []"
  shows "\<exists>url. outcome (buildPaymentUrl pf this payload) = Resolved url"
proof -
  have "\<exists>u. built_URL pf this payload = Inr u"
    by (rule built_URL_valid[OF assms(1), of payload]) blast
  then obtain u where "built_URL pf this payload = Inr u" ..
  from outcome_buildPaymentUrl_Inr[OF assms(1) this] show ?thesis by blast
qed

text \<open>
  The example payload without its transaction reference: the validator reports
  \<open>vnp_TxnRef\<close>, and the call resolves.
\<close>

theorem buildPaymentUrl_resolves_despite_validation_witness:
  "validate example_platform (merged_fields example_platform example_vnpay example_payload_incomplete)
     = [''vnp_TxnRef'']
   \<and> (\<exists>url. outcome (buildPaymentUrl example_platform example_vnpay example_payload_incomplete)
         = Resolved url)"
proof -
  have wf: "wf_object example_payload_incomplete"
    by (simp add: wf_object_def example_payload_incomplete_def)
  have "obj_get (merged_fields example_platform example_vnpay example_payload_incomplete) ''vnp_TxnRef''
          = obj_get (default_returnUrl example_vnpay example_payload_incomplete) ''vnp_TxnRef''"
    unfolding merged_fields_def
    by (rule obj_get_build_data_other[OF wf_default_returnUrl[OF wf]])
       (simp_all add: keys_configDefault)
  also have "\<dots> = obj_get example_payload_incomplete ''vnp_TxnRef''"
    by (simp add: obj_get_default_returnUrl)
  also have "\<dots> = JUndefined"
    by (simp add: example_payload_incomplete_def obj_get_def)
  finally have v: "validate example_platform
       (merged_fields example_platform example_vnpay example_payload_incomplete) = [''vnp_TxnRef'']"
    by (simp add: example_platform_def)
  then have "validate example_platform
       (merged_fields example_platform example_vnpay example_payload_incomplete) \<noteq> []" by simp
  from buildPaymentUrl_resolves_despite_validation[OF valid_config_example this] v
  show ?thesis by simp
qed

subsection \<open>C2: the values that are dropped\<close>

text \<open>
  Claim C2 as stated says that the entries dropped are exactly those whose value is null,
  undefined, the empty string, numeric zero or boolean false. The test in both loops is
  \<open>!value\<close>, and NaN is falsy as well: an entry whose value is NaN is dropped on both
  paths, and NaN is none of the five.
\<close>

theorem empty_values_dropped_counterexample:
  "build_forEach example_URL [(''vnp_Amount'', JNaN)] = Inr example_URL
   \<and> verify_forEach example_URL [(''vnp_Amount'', JNaN)] = Inr example_URL
   \<and> \<not> listed_empty JNaN"
  by (simp add: listed_empty_def)

text \<open>
  Claim C2, amended. On the build path and on the verify path the loop appends, in order,
  exactly the entries whose value is none of null, undefined, the empty string, numeric
  zero, boolean false and NaN, each with the text of its value, and both loops end with
  the same URL. So, with a consistent key comparison, a field with such a value can be
  put into the return query or left out of it without changing the signature that
  \<open>verifyReturnUrl\<close> recomputes.
\<close>

theorem empty_values_dropped:
  "(\<exists>u'. build_forEach u entries = Inr u' \<and> verify_forEach u entries = Inr u'
       \<and> searchParams u' =
           searchParams u
           @ map (\<lambda>e. (fst e, text_of (snd e)))
               (filter (\<lambda>e. \<not> (listed_empty (snd e) \<or> snd e = JNaN)) entries))
   \<and> (consistent_compare pf \<and> (listed_empty v \<or> v = JNaN) \<longrightarrow>
        verify_signed pf this (strip_signature (ReturnQueryFromVNPayDTO (xs @ (k, v) # ys))) =
        verify_signed pf this (strip_signature (ReturnQueryFromVNPayDTO (xs @ ys))))"
proof (intro conjI impI)
  have "searchParams (append_params u (kept_params entries)) =
          searchParams u
          @ map (\<lambda>e. (fst e, text_of (snd e)))
              (filter (\<lambda>e. \<not> (listed_empty (snd e) \<or> snd e = JNaN)) entries)"
    by (simp add: searchParams_append_params kept_params_def truthy_iff)
  then show "\<exists>u'. build_forEach u entries = Inr u' \<and> verify_forEach u entries = Inr u'
       \<and> searchParams u' =
           searchParams u
           @ map (\<lambda>e. (fst e, text_of (snd e)))
               (filter (\<lambda>e. \<not> (listed_empty (snd e) \<or> snd e = JNaN)) entries)"
    by (simp add: build_forEach_eq verify_forEach_eq)
next
  assume a: "consistent_compare pf \<and> (listed_empty v \<or> v = JNaN)"
  then have c: "consistent_compare pf" and f: "\<not> truthy v" by (simp_all add: truthy_iff)
  have "filter (\<lambda>e. truthy (snd e)) (strip_signature (xs @ (k, v) # ys)) =
        filter (\<lambda>e. truthy (snd e)) (strip_signature (xs @ ys))"
    using f by (simp add: strip_signature_def obj_delete_def)
  then have "kept_params (sort_entries pf (strip_signature (xs @ (k, v) # ys))) =
             kept_params (sort_entries pf (strip_signature (xs @ ys)))"
    by (simp add: kept_params_sort_entries[OF c])
  then show "verify_signed pf this (strip_signature (ReturnQueryFromVNPayDTO (xs @ (k, v) # ys))) =
        verify_signed pf this (strip_signature (ReturnQueryFromVNPayDTO (xs @ ys)))"
    unfolding ReturnQueryFromVNPayDTO_def by (rule verify_signed_cong)
qed

text \<open>
  Three entries of which only the bank code is kept; a return query with and without an
  amount of zero.
\<close>

theorem empty_values_dropped_witness:
  "(\<exists>u'. build_forEach example_URL
            [(''vnp_Amount'', JNum 0), (''vnp_BankCode'', JStr ''NCB''), (''vnp_CardType'', JNaN)] = Inr u'
       \<and> verify_forEach example_URL
            [(''vnp_Amount'', JNum 0), (''vnp_BankCode'', JStr ''NCB''), (''vnp_CardType'', JNaN)] = Inr u'
       \<and> searchParams u' = [(''vnp_BankCode'', ''NCB'')])
   \<and> verify_signed example_platform example_vnpay
        (strip_signature (ReturnQueryFromVNPayDTO
           [(''vnp_ResponseCode'', JStr ''00''), (''vnp_Amount'', JNum 0), (''vnp_BankCode'', JStr ''NCB'')])) =
      verify_signed example_platform example_vnpay
        (strip_signature (ReturnQueryFromVNPayDTO
           [(''vnp_ResponseCode'', JStr ''00''), (''vnp_BankCode'', JStr ''NCB'')]))"
  using empty_values_dropped[of example_URL
      "[(''vnp_Amount'', JNum 0), (''vnp_BankCode'', JStr ''NCB''), (''vnp_CardType'', JNaN)]"
      example_platform "JNum 0" example_vnpay "[(''vnp_ResponseCode'', JStr ''00'')]"
      "''vnp_Amount''" "[(''vnp_BankCode'', JStr ''NCB'')]"]
    consistent_compare_example
  by (simp add: listed_empty_def example_URL_def text_of_def)

end
